theory Spec2Isabelle
  imports Complex_Main "HOL-Library.Sublist" "HOL-Library.AList" "HOL-Library.Multiset"
    "HOL-Library.Log_Nat"
begin

section \<open>Strings\<close>

text \<open>
  Python strings are modelled as \<open>string\<close>, the UTF-8 bytes of the text. The operations
  used below (\<open>in\<close>, \<open>split\<close> on an ASCII separator, \<open>strip\<close>) agree on bytes and on code
  points. \<open>lower\<close> lower-cases the letters of ASCII and of the Latin-1 supplement (the German
  umlauts among them) and \<open>strip\<close> removes the ASCII white space; Python also lower-cases
  letters and strips blanks beyond these, which this model leaves unchanged. The letters
  outside ASCII that the source's string constants use are named here by their bytes.
\<close>

definition is_space :: "char \<Rightarrow> bool" where
  "is_space c = (c \<in> set [CHR 0x09, CHR 0x0A, CHR 0x0B, CHR 0x0C, CHR 0x0D,
                            CHR 0x1C, CHR 0x1D, CHR 0x1E, CHR 0x1F, CHR 0x20])"

definition strip :: "string \<Rightarrow> string" where
  "strip s = rev (dropWhile is_space (rev (dropWhile is_space s)))"

definition uml_ae :: string where "uml_ae = [CHR 0xC3, CHR 0xA4]"
definition uml_oe :: string where "uml_oe = [CHR 0xC3, CHR 0xB6]"
definition uml_ue :: string where "uml_ue = [CHR 0xC3, CHR 0xBC]"
definition uml_Ue :: string where "uml_Ue = [CHR 0xC3, CHR 0x9C]"
definition degree_sign :: string where "degree_sign = [CHR 0xC2, CHR 0xB0]"
definition geq_sign :: string where "geq_sign = [CHR 0xE2, CHR 0x89, CHR 0xA5]"
definition leq_sign :: string where "leq_sign = [CHR 0xE2, CHR 0x89, CHR 0xA4]"

definition lower_char :: "char \<Rightarrow> char" where
  "lower_char c =
     (case map_of (zip ''ABCDEFGHIJKLMNOPQRSTUVWXYZ'' ''abcdefghijklmnopqrstuvwxyz'') c of
        Some l \<Rightarrow> l | None \<Rightarrow> c)"

text \<open>The second byte of a capital letter of the Latin-1 supplement (U+00C0 to U+00DE
  without the multiplication sign), whose first byte is 0xC3; its small letter is 0x20
  further.\<close>

definition latin1_upper :: "char \<Rightarrow> bool" where
  "latin1_upper c = (let n = (of_char c :: nat) in 128 \<le> n \<and> n \<le> 158 \<and> n \<noteq> 151)"

fun lower :: "string \<Rightarrow> string" where
  "lower (c # c' # cs) =
     (if c = CHR 0xC3 \<and> latin1_upper c'
      then c # char_of (of_char c' + (32 :: nat)) # lower cs
      else lower_char c # lower (c' # cs))"
| "lower [c] = [lower_char c]"
| "lower [] = []"

text \<open>\<open>s.split(d)\<close> for a separator of one character: a scan that closes a field at each
  separator; the empty string gives one empty field.\<close>

fun split_acc :: "char \<Rightarrow> string \<Rightarrow> string \<Rightarrow> string list" where
  "split_acc d cur [] = [rev cur]"
| "split_acc d cur (c # cs) =
     (if c = d then rev cur # split_acc d [] cs else split_acc d (c # cur) cs)"

definition split_on :: "char \<Rightarrow> string \<Rightarrow> string list" where
  "split_on d s = split_acc d [] s"

text \<open>\<open>n in h\<close> on strings: \<open>n\<close> occurs in \<open>h\<close> as a contiguous run.\<close>

fun is_sub :: "string \<Rightarrow> string \<Rightarrow> bool" where
  "is_sub n [] = (n = [])"
| "is_sub n (h # hs) = (prefix n (h # hs) \<or> is_sub n hs)"

section \<open>Symptom matching (core.py, symptome\_abgleichen)\<close>

text \<open>An entry of the symptom dictionary; \<open>data.get("synonyme", [])\<close> makes a missing
  synonym list the empty list. The dictionary itself (symptoms.json) is a parameter: an
  association list in the dictionary's iteration order.\<close>

record symptom_entry =
  name :: string
  synonyme :: "string list"

type_synonym 'sid symptom_db = "('sid \<times> symptom_entry) list"

definition eingabe_liste :: "string \<Rightarrow> string list" where
  "eingabe_liste eingabe = map (\<lambda>s. lower (strip s)) (split_on CHR '','' eingabe)"

definition entry_matches :: "string \<Rightarrow> symptom_entry \<Rightarrow> bool" where
  "entry_matches symptom data =
     (is_sub symptom (lower (name data)) \<or>
      list_ex (\<lambda>syn. is_sub (lower syn) symptom) (synonyme data))"

fun find_entry :: "string \<Rightarrow> 'sid symptom_db \<Rightarrow> 'sid option" where
  "find_entry symptom [] = None"
| "find_entry symptom ((sid, data) # rest) =
     (if entry_matches symptom data then Some sid else find_entry symptom rest)"

fun abgleichen_loop ::
  "'sid symptom_db \<Rightarrow> string list \<Rightarrow> 'sid list \<times> string list \<Rightarrow> 'sid list \<times> string list" where
  "abgleichen_loop db [] acc = acc"
| "abgleichen_loop db (symptom # rest) (symptom_ids, unmatched) =
     (if symptom = [] then abgleichen_loop db rest (symptom_ids, unmatched)
      else (case find_entry symptom db of
              Some sid \<Rightarrow> abgleichen_loop db rest (symptom_ids @ [sid], unmatched)
            | None \<Rightarrow> abgleichen_loop db rest (symptom_ids, unmatched @ [symptom])))"

definition symptome_abgleichen :: "string \<Rightarrow> 'sid symptom_db \<Rightarrow> 'sid list \<times> string list" where
  "symptome_abgleichen eingabe db = abgleichen_loop db (eingabe_liste eingabe) ([], [])"

text \<open>A small dictionary for the concrete evaluations below.\<close>

definition demo_db :: "nat symptom_db" where
  "demo_db = [(1, \<lparr>name = ''Fieber'', synonyme = [''Temperatur'', ''fever'']\<rparr>),
              (2, \<lparr>name = ''Husten'', synonyme = [''hust'']\<rparr>),
              (3, \<lparr>name = ''Reizhusten'', synonyme = []\<rparr>),
              (4, \<lparr>name = ''Brustschmerzen'', synonyme = []\<rparr>),
              (5, \<lparr>name = ''Kurzatmigkeit'', synonyme = []\<rparr>)]"

section \<open>Diagnosis score maps\<close>

text \<open>
  A Python dict from diagnosis name to score is an association list in insertion order with
  distinct keys: \<open>map_of\<close> reads a key, \<open>AList.update\<close> overwrites a key in place or appends
  a new one at the end, as a dict assignment does. Scores are Python floats; they are modelled
  as exact real numbers, so the theorems below speak of the arithmetic the code intends, not
  of binary rounding error.
\<close>

type_synonym scores = "(string \<times> real) list"

text \<open>\<open>round(x, 1)\<close>: to the nearest multiple of 0.1, a tie going to the even multiple.\<close>

definition round1 :: "real \<Rightarrow> real" where
  "round1 x =
     (let y = x * 10; f = \<lfloor>y\<rfloor>; d = y - of_int f
      in of_int (if d < 1 / 2 then f else if 1 / 2 < d then f + 1
                 else if even f then f else f + 1) / 10)"

text \<open>The normalize-to-100 operation: core.py lines 251--254 and, in the same words,
  hybrid\_model.py lines 716--719. The total is taken once, before the values are replaced.\<close>

definition normalize_100 :: "scores \<Rightarrow> scores" where
  "normalize_100 ds =
     (let total = sum_list (map snd ds)
      in if total > 0 then map (\<lambda>(k, v). (k, round1 ((v / total) * 100))) ds else ds)"

text \<open>core.py lines 671--675 (patient\_verarbeiten): the rule engine's contributions are merged
  into the classifier's map.\<close>

fun merge_rules :: "scores \<Rightarrow> scores \<Rightarrow> scores" where
  "merge_rules diagnosen [] = diagnosen"
| "merge_rules diagnosen ((diagnose, wahrscheinlichkeit) # rest) =
     merge_rules
       (case map_of diagnosen diagnose of
          Some existing \<Rightarrow> AList.update diagnose (max existing wahrscheinlichkeit) diagnosen
        | None \<Rightarrow> AList.update diagnose wahrscheinlichkeit diagnosen)
       rest"

section \<open>Numbers in text\<close>

datatype py_error = ValueError | IndexError | ZeroDivisionError

text \<open>
  \<open>int(s)\<close> and \<open>float(s)\<close> on a string: \<open>None\<close> is the \<open>ValueError\<close> of the source. The
  model reads the plain decimal forms (optional sign, digits, for a float an optional point)
  with surrounding white space; Python also accepts digit-group underscores, exponents,
  \<open>inf\<close> and \<open>nan\<close>, which are \<open>None\<close> here.
\<close>

definition is_digit :: "char \<Rightarrow> bool" where
  "is_digit c = (c \<in> set ''0123456789'')"

definition digits_val :: "string \<Rightarrow> nat" where
  "digits_val ds = foldl (\<lambda>n c. 10 * n + (of_char c - 48)) 0 ds"

definition split_sign :: "string \<Rightarrow> int \<times> string" where
  "split_sign s =
     (case s of
        [] \<Rightarrow> (1, [])
      | c # r \<Rightarrow> if c = CHR ''-'' then (- 1, r) else if c = CHR ''+'' then (1, r) else (1, s))"

definition py_int :: "string \<Rightarrow> int option" where
  "py_int s =
     (let (sg, ds) = split_sign (strip s)
      in if ds \<noteq> [] \<and> list_all is_digit ds then Some (sg * int (digits_val ds)) else None)"

definition py_float :: "string \<Rightarrow> real option" where
  "py_float s =
     (let (sg, body) = split_sign (strip s);
          ip = takeWhile (\<lambda>c. c \<noteq> CHR ''.'') body;
          fp = drop 1 (dropWhile (\<lambda>c. c \<noteq> CHR ''.'') body)
      in if list_all is_digit ip \<and> list_all is_digit fp \<and> (ip \<noteq> [] \<or> fp \<noteq> [])
         then Some (of_int sg * (of_nat (digits_val ip) + of_nat (digits_val fp) / 10 ^ length fp))
         else None)"

section \<open>Vital signs (core.py, parse\_vitals, check\_vitals, adjust\_diagnosis\_with\_vitals)\<close>

type_synonym vitals = "(string \<times> string) list"

text \<open>\<open>pair.split(':', 1)\<close>, for a pair that holds a colon.\<close>

definition split_first :: "char \<Rightarrow> string \<Rightarrow> string \<times> string" where
  "split_first d s = (takeWhile (\<lambda>c. c \<noteq> d) s, drop 1 (dropWhile (\<lambda>c. c \<noteq> d) s))"

definition parse_vitals :: "string \<Rightarrow> vitals" where
  "parse_vitals vitals_string =
     (if vitals_string = [] \<or> strip vitals_string = [] then []
      else fold (\<lambda>pair vitals.
                   let pair = strip pair
                   in if CHR '':'' \<in> set pair
                      then (let (key, value) = split_first CHR '':'' pair
                            in AList.update (strip key) (strip value) vitals)
                      else vitals)
             (split_on CHR '','' vitals_string) [])"

definition ist_kind :: "string \<Rightarrow> bool" where
  "ist_kind alter = (alter \<in> set [(''S'' @ uml_ae @ ''ugling''), ''Kleinkind'', ''Kind''])"

definition ist_saugling :: "string \<Rightarrow> bool" where
  "ist_saugling alter = (alter = (''S'' @ uml_ae @ ''ugling''))"

text \<open>check\_vitals, one block per vital sign; each \<open>try\<close> block ends in
  \<open>except ValueError: pass\<close>, so a value that does not parse gives no warning.\<close>

definition check_hr :: "vitals \<Rightarrow> string \<Rightarrow> string list" where
  "check_hr vitals alter =
     (case map_of vitals ''HR'' of
        None \<Rightarrow> []
      | Some v \<Rightarrow>
          (case py_int v of
             None \<Rightarrow> []
           | Some hr \<Rightarrow>
               if ist_saugling alter then
                 (if hr > 160 then [(''Tachykardie (HR > 160 bei S'' @ uml_ae @ ''ugling)'')]
                  else if hr < 100 then [(''Bradykardie (HR < 100 bei S'' @ uml_ae @ ''ugling)'')] else [])
               else if ist_kind alter then
                 (if hr > 140 then [''Tachykardie (HR > 140 bei Kind)'']
                  else if hr < 80 then [''Bradykardie (HR < 80 bei Kind)''] else [])
               else
                 (if hr > 120 then [''Tachykardie (HR > 120)'']
                  else if hr < 50 then [''Bradykardie (HR < 50)''] else [])))"

text \<open>\<open>systolic, diastolic = map(int, vitals['BP'].split('/'))\<close> raises \<open>ValueError\<close> unless
  the value has exactly two parts and both are integers.\<close>

definition check_bp :: "vitals \<Rightarrow> string \<Rightarrow> string list" where
  "check_bp vitals alter =
     (case map_of vitals ''BP'' of
        None \<Rightarrow> []
      | Some v \<Rightarrow>
          if CHR ''/'' \<in> set v then
            (case map py_int (split_on CHR ''/'' v) of
               [Some systolic, Some diastolic] \<Rightarrow>
                 if ist_kind alter then
                   (if systolic > 130 then [(''Erh'' @ uml_oe @ ''hter Blutdruck (Systolisch > 130 bei Kind)'')]
                    else if systolic < 80 then [''Hypotonie (Systolisch < 80 bei Kind)''] else [])
                 else
                   (if systolic > 180 then [''Schwere Hypertonie (Systolisch > 180)'']
                    else if systolic < 90 then [''Hypotonie (Systolisch < 90)''] else [])
             | _ \<Rightarrow> [])
          else [])"

definition check_t :: "vitals \<Rightarrow> string list" where
  "check_t vitals =
     (case map_of vitals ''T'' of
        None \<Rightarrow> []
      | Some v \<Rightarrow>
          (case py_float v of
             None \<Rightarrow> []
           | Some temp \<Rightarrow>
               if temp \<ge> 39.5 then [(''Hohes Fieber (T '' @ geq_sign @ '' 39.5'' @ degree_sign @ ''C)'')]
               else if temp \<le> 35.5 then [(''Hypothermie (T '' @ leq_sign @ '' 35.5'' @ degree_sign @ ''C)'')] else []))"

definition check_spo2 :: "vitals \<Rightarrow> string \<Rightarrow> string list" where
  "check_spo2 vitals alter =
     (case map_of vitals ''SpO2'' of
        None \<Rightarrow> []
      | Some v \<Rightarrow>
          (case py_int v of
             None \<Rightarrow> []
           | Some spo2 \<Rightarrow>
               if ist_kind alter then
                 (if spo2 < 94 then [(''Sauerstoffs'' @ uml_ae @ ''ttigung kritisch (SpO2 < 94% bei Kind)'')] else [])
               else
                 (if spo2 < 92 then [(''Sauerstoffs'' @ uml_ae @ ''ttigung kritisch (SpO2 < 92%)'')] else [])))"

definition check_vitals :: "vitals \<Rightarrow> string \<Rightarrow> string list" where
  "check_vitals vitals alter =
     check_hr vitals alter @ check_bp vitals alter @ check_t vitals @ check_spo2 vitals alter"

text \<open>One line of adjust\_diagnosis\_with\_vitals:
  \<open>if cond and d in adjusted: adjusted[d] = min(100, adjusted[d] * factor)\<close>.\<close>

definition boost :: "bool \<Rightarrow> string \<Rightarrow> real \<Rightarrow> scores \<Rightarrow> scores" where
  "boost cond d factor ds =
     (case map_of ds d of
        Some v \<Rightarrow> if cond then AList.update d (min 100 (v * factor)) ds else ds
      | None \<Rightarrow> ds)"

definition adjust_temp :: "vitals \<Rightarrow> string \<Rightarrow> scores \<Rightarrow> scores" where
  "adjust_temp vitals alter a =
     (case map_of vitals ''T'' of
        None \<Rightarrow> a
      | Some v \<Rightarrow>
          (case py_float v of
             None \<Rightarrow> a
           | Some temp \<Rightarrow>
               let a = boost (temp \<ge> 38.5) (''Lungenentz'' @ uml_ue @ ''ndung'') 1.2 a;
                   a = boost (temp \<ge> 39.0) ''Virusgrippe'' 1.2 a
               in if ist_kind alter then
                    (let a = boost (temp \<ge> 38.5) ''Bronchiolitis'' 1.3 a;
                         a = boost (temp \<ge> 39.0) ''Pseudokrupp'' 1.2 a;
                         a = boost (temp \<ge> 39.0) ''Otitis media'' 1.3 a;
                         a = boost (temp \<ge> 39.5) ''Meningitis'' 1.4 a
                     in a)
                  else a))"

definition adjust_spo2 :: "vitals \<Rightarrow> string \<Rightarrow> scores \<Rightarrow> scores" where
  "adjust_spo2 vitals alter a =
     (case map_of vitals ''SpO2'' of
        None \<Rightarrow> a
      | Some v \<Rightarrow>
          (case py_int v of
             None \<Rightarrow> a
           | Some spo2 \<Rightarrow>
               let a = boost (spo2 < 92) ''Pulmonalembolie'' 1.3 a;
                   a = boost (spo2 < 90) (''Lungenentz'' @ uml_ue @ ''ndung'') 1.2 a
               in if ist_kind alter then
                    (let a = boost (spo2 < 94) ''Bronchiolitis'' 1.4 a;
                         a = boost (spo2 < 93) ''RSV-Bronchiolitis'' 1.4 a;
                         a = boost (spo2 < 92) ''Pneumonie bei Kindern'' 1.5 a
                     in a)
                  else a))"

definition adjust_hr :: "vitals \<Rightarrow> string \<Rightarrow> scores \<Rightarrow> scores" where
  "adjust_hr vitals alter a =
     (case map_of vitals ''HR'' of
        None \<Rightarrow> a
      | Some v \<Rightarrow>
          (case py_int v of
             None \<Rightarrow> a
           | Some hr \<Rightarrow>
               let a = boost (hr > 110) ''Akuter Herzinfarkt'' 1.3 a;
                   a = boost (hr > 120) ''Lungenembolie'' 1.4 a
               in if ist_kind alter then
                    (let a = boost (hr > 120) ''Pseudokrupp'' 1.2 a;
                         a = boost (hr > 130) ''RSV-Bronchiolitis'' 1.3 a;
                         a = boost (hr > 140) ''Meningitis'' 1.5 a
                     in a)
                  else a))"

definition adjust_diagnosis_with_vitals :: "scores \<Rightarrow> vitals \<Rightarrow> string \<Rightarrow> scores" where
  "adjust_diagnosis_with_vitals diagnosen vitals alter =
     (if vitals = [] then diagnosen
      else normalize_100 (adjust_hr vitals alter (adjust_spo2 vitals alter
             (adjust_temp vitals alter diagnosen))))"

section \<open>The rule engine (core.py, apply\_medical\_rules)\<close>

text \<open>\<open>" ".join(xs)\<close>.\<close>

definition join_sp :: "string list \<Rightarrow> string" where
  "join_sp xs = (case xs of [] \<Rightarrow> [] | x # r \<Rightarrow> x @ concat (map (\<lambda>y. CHR '' '' # y) r))"

definition leitsymptome :: "(string \<times> string list) list" where
  "leitsymptome =
     [(''brustschmerzen'', [''Akuter Herzinfarkt'', ''Angina pectoris'', ''Lungenembolie'']),
      (''atemnot'', [''Akuter Herzinfarkt'', ''Lungenembolie'', ''Asthma-Anfall'', ''Pneumonie'']),
      (''starke kopfschmerzen'', [''Meningitis'', ''Schlaganfall'', ''Subarachnoidalblutung'']),
      ((''l'' @ uml_ae @ ''hmungserscheinungen''), [''Schlaganfall'', ''Multiple Sklerose'']),
      ((''sprachst'' @ uml_oe @ ''rungen''), [''Schlaganfall'', (''Transitorische isch'' @ uml_ae @ ''mische Attacke'')]),
      (''bewusstlosigkeit'', [''Synkope'', ''Epilepsie'', (''Hypoglyk'' @ uml_ae @ ''mie'')])]"

text \<open>Line 311: \<open>zusatz_diagnosen[diagnose] = zusatz_diagnosen.get(diagnose, 0) + 35.0\<close>.\<close>

definition add_leit :: "string \<Rightarrow> scores \<Rightarrow> scores" where
  "add_leit diagnose z =
     AList.update diagnose ((case map_of z diagnose of Some v \<Rightarrow> v | None \<Rightarrow> 0) + 35) z"

definition leitsymptom_pass :: "string list \<Rightarrow> scores" where
  "leitsymptom_pass symptom_list =
     fold (\<lambda>symptom z.
             fold (\<lambda>(leitsymptom, diagnosen) z.
                     if is_sub leitsymptom symptom then fold add_leit diagnosen z else z)
                  leitsymptome z)
          symptom_list []"

text \<open>
  \<open>re.search(r"label\s*(.*?)(?:\n|$)", text, re.IGNORECASE)\<close> behind the guard
  \<open>label in text.lower()\<close>: the first place where the label stands, in any casing; the group
  is what follows it after white space, up to the end of that line. \<open>None\<close> when the label is
  absent.
\<close>

fun after_label :: "string \<Rightarrow> string \<Rightarrow> string option" where
  "after_label label [] = None"
| "after_label label (c # cs) =
     (if prefix label (map lower_char (take (length label) (c # cs)))
      then Some (drop (length label) (c # cs))
      else after_label label cs)"

definition re_section :: "string \<Rightarrow> string \<Rightarrow> string option" where
  "re_section label zusatzinfos =
     (if is_sub label (lower zusatzinfos)
      then map_option (\<lambda>rest. takeWhile (\<lambda>c. c \<noteq> CHR 0x0A) (dropWhile is_space rest))
             (after_label label zusatzinfos)
      else None)"

text \<open>The \<open>key: value\<close> items of a section (lines 326--330 and 337--341).\<close>

definition parse_items :: "string \<Rightarrow> (string \<times> string) list" where
  "parse_items text =
     fold (\<lambda>item d.
             if CHR '':'' \<in> set item
             then (let (key, value) = split_first CHR '':'' item
                   in AList.update (lower (strip key)) (lower (strip value)) d)
             else d)
          (split_on CHR '','' text) []"

definition parse_vorerkrankungen :: "string \<Rightarrow> string list" where
  "parse_vorerkrankungen zusatzinfos =
     (case re_section ''vorerkrankungen:'' zusatzinfos of
        None \<Rightarrow> []
      | Some g \<Rightarrow> map (\<lambda>v. lower (strip v)) (split_on CHR '','' g))"

definition parse_untersuchungsergebnisse :: "string \<Rightarrow> (string \<times> string) list" where
  "parse_untersuchungsergebnisse zusatzinfos =
     (case re_section ''untersuchungsergebnisse:'' zusatzinfos of
        None \<Rightarrow> [] | Some g \<Rightarrow> parse_items g)"

definition parse_laborwerte :: "string \<Rightarrow> (string \<times> string) list" where
  "parse_laborwerte zusatzinfos =
     (case re_section ''laborwerte:'' zusatzinfos of None \<Rightarrow> [] | Some g \<Rightarrow> parse_items g)"

text \<open>\<open>any(term in text for term in terms)\<close>.\<close>

definition any_in :: "string list \<Rightarrow> string \<Rightarrow> bool" where
  "any_in terms text = list_ex (\<lambda>term. is_sub term text) terms"

text \<open>Lines 344--368, the paediatric rules. \<open>j\<close> is \<open>" ".join(symptom_list)\<close> and \<open>sl\<close> is
  \<open>symptome.lower()\<close>.\<close>

definition paediatric_rules ::
  "string \<Rightarrow> string \<Rightarrow> string \<Rightarrow> (string \<times> string) list \<Rightarrow> scores \<Rightarrow> scores" where
  "paediatric_rules j sl alter untersuchungsergebnisse z =
     (let z = (if is_sub ''husten'' j \<and> any_in [''bellend'', ''heiser'', ''heiserkeit''] sl
               then AList.update ''Pseudokrupp'' 80 z else z);
          z = (if is_sub ''husten'' j \<and> is_sub ''fieber'' j \<and> alter = (''S'' @ uml_ae @ ''ugling'')
               then AList.update ''Bronchiolitis'' 70
                      (AList.update ''Virale Atemwegsinfektion'' 65
                         (AList.update ''RSV-Bronchiolitis'' 75 z))
               else z);
          z = (if is_sub ''fieber'' j \<and> any_in [''atemnot'', ''kurzatmig'', ''atembeschwerden''] sl
               then (if alter = (''S'' @ uml_ae @ ''ugling'')
                     then AList.update ''RSV-Bronchiolitis'' 75 (AList.update ''Bronchiolitis'' 80 z)
                     else AList.update ''Pneumonie bei Kindern'' 60 (AList.update ''Bronchitis'' 65 z))
               else z);
          z = (if is_sub ''fieber'' j \<and> is_sub ''ohrenschmerzen'' j
               then AList.update ''Akute Otitis media'' 80 z else z);
          z = (case map_of untersuchungsergebnisse ''hno'' of
                 None \<Rightarrow> z
               | Some hno_befund \<Rightarrow>
                   if is_sub (''trommelfell ger'' @ uml_oe @ ''tet'') hno_befund \<or>
                      is_sub (''trommelfell vorgew'' @ uml_oe @ ''lbt'') hno_befund
                   then AList.update ''Akute Otitis media'' 85 z else z)
      in z)"

text \<open>Lines 371--398, the adult rules. Line 373 calls \<open>int(vitals['HR'])\<close> outside any
  \<open>try\<close>: a heart rate that is not an integer raises \<open>ValueError\<close> out of the function.\<close>

definition adult_rules ::
  "string \<Rightarrow> vitals \<Rightarrow> (string \<times> string) list \<Rightarrow> scores \<Rightarrow> py_error + scores" where
  "adult_rules j vitals untersuchungsergebnisse z =
     (let tail = (\<lambda>z.
            let z = (if is_sub ''kopfschmerzen'' j \<and> is_sub ''lichtempfindlichkeit'' j
                     then AList.update (''Migr'' @ uml_ae @ ''ne'') 75 z else z);
                z = (if is_sub ''husten'' j \<and> is_sub ''fieber'' j \<and> is_sub ''auswurf'' j
                     then (let z = AList.update ''Pneumonie'' 65 (AList.update ''Bronchitis'' 70 z)
                           in case map_of untersuchungsergebnisse ''pulmo'' of
                                None \<Rightarrow> z
                              | Some pulmo_befund \<Rightarrow>
                                  if is_sub (''rasselger'' @ uml_ae @ ''usche'') pulmo_befund \<or>
                                     is_sub ''bronchial'' pulmo_befund
                                  then AList.update ''Pneumonie'' 80 z else z)
                     else z)
            in z);
          cor = (\<lambda>z.
            case map_of untersuchungsergebnisse ''cor'' of
              None \<Rightarrow> z
            | Some cor_befund \<Rightarrow>
                let z = (if is_sub (''herzger'' @ uml_ae @ ''usch'') cor_befund \<or> is_sub ''systolikum'' cor_befund
                         then AList.update ''Herzklappenfehler'' 55 z else z);
                    z = (if is_sub ''tachykardie'' cor_befund
                         then AList.update ''Akuter Herzinfarkt'' 75 z else z)
                in z)
      in if is_sub ''brustschmerzen'' j \<and> is_sub ''kurzatmigkeit'' j
         then (case (if vitals \<noteq> [] then map_of vitals ''HR'' else None) of
                 None \<Rightarrow> Inr (tail (cor (AList.update ''Angina pectoris'' 60 z)))
               | Some v \<Rightarrow>
                   (case py_int v of
                      None \<Rightarrow> Inl ValueError
                    | Some hr \<Rightarrow>
                        if hr > 100
                        then Inr (tail (cor (AList.update ''Akutes Koronarsyndrom'' 65
                                               (AList.update ''Akuter Herzinfarkt'' 70 z))))
                        else Inr (tail (cor (AList.update ''Angina pectoris'' 60 z)))))
         else Inr (tail z))"

text \<open>Lines 401--412.\<close>

definition vorerkrankungen_rules :: "string \<Rightarrow> string list \<Rightarrow> scores \<Rightarrow> scores" where
  "vorerkrankungen_rules j vorerkrankungen z =
     (if vorerkrankungen = [] then z
      else
        let z = (if list_ex (\<lambda>v. v \<in> set [''asthma'', ''asthma bronchiale'']) vorerkrankungen \<and>
                    (is_sub ''husten'' j \<or> is_sub ''atemnot'' j)
                 then AList.update ''Asthma-Exazerbation'' 70 z else z);
            z = (if list_ex (\<lambda>v. v \<in> set [''copd'', ''chronisch obstruktive lungenerkrankung''])
                      vorerkrankungen \<and>
                    (is_sub ''husten'' j \<or> is_sub ''atemnot'' j)
                 then AList.update ''COPD-Exazerbation'' 75 z else z);
            z = (if list_ex (\<lambda>v. v \<in> set [''diabetes'', ''diabetes mellitus'']) vorerkrankungen \<and>
                    (is_sub ''durst'' j \<or> is_sub ''polyurie'' j)
                 then AList.update ''Entgleister Diabetes'' 65 z else z)
        in z)"

text \<open>Lines 415--437. \<open>laborwerte["crp"].split()[0]\<close> raises \<open>IndexError\<close>, which the
  \<open>except ValueError\<close> does not catch, when the value holds no token.\<close>

definition first_token :: "string \<Rightarrow> string" where
  "first_token s = takeWhile (\<lambda>c. \<not> is_space c) (dropWhile is_space s)"

definition crp_rules :: "string \<Rightarrow> (string \<times> string) list \<Rightarrow> scores \<Rightarrow> py_error + scores" where
  "crp_rules j laborwerte z =
     (case map_of laborwerte ''crp'' of
        None \<Rightarrow> Inr z
      | Some v \<Rightarrow>
          if first_token v = [] then Inl IndexError
          else (case py_float (first_token v) of
                  None \<Rightarrow> Inr z
                | Some crp_wert \<Rightarrow>
                    if crp_wert > 100 \<and> is_sub ''fieber'' j
                    then (let z = AList.update ''Bakterielle Infektion'' 80 z;
                              z = (if is_sub ''husten'' j
                                   then AList.update ''Pneumonie'' 85 z else z);
                              z = (if is_sub ''dysurie'' j \<or> is_sub ''pollakisurie'' j
                                   then AList.update ''Pyelonephritis'' 85 z else z)
                          in Inr z)
                    else Inr z))"

definition leukozyten_rules :: "(string \<times> string) list \<Rightarrow> scores \<Rightarrow> scores" where
  "leukozyten_rules laborwerte z =
     (case map_of laborwerte ''leukozyten'' of
        None \<Rightarrow> z
      | Some v \<Rightarrow>
          (case py_float (takeWhile (\<lambda>c. c \<noteq> CHR ''/'') v) of
             None \<Rightarrow> z
           | Some leuko_wert \<Rightarrow>
               if leuko_wert > 12
               then AList.update ''Bakterielle Infektion''
                      (max 65 (case map_of z ''Bakterielle Infektion'' of
                                 Some e \<Rightarrow> e | None \<Rightarrow> 0)) z
               else if leuko_wert < 4 then AList.update ''Virale Infektion'' 60 z
               else z))"

definition labor_rules :: "string \<Rightarrow> (string \<times> string) list \<Rightarrow> scores \<Rightarrow> py_error + scores" where
  "labor_rules j laborwerte z =
     (if laborwerte = [] then Inr z
      else (case crp_rules j laborwerte z of
              Inl e \<Rightarrow> Inl e
            | Inr z \<Rightarrow> Inr (leukozyten_rules laborwerte z)))"

text \<open>Lines 441--454: a constellation raises its diagnosis to a floor,
  \<open>max(floor, zusatz_diagnosen.get(d, 0))\<close>.\<close>

definition floor_at :: "string \<Rightarrow> real \<Rightarrow> scores \<Rightarrow> scores" where
  "floor_at d fl z =
     AList.update d (max fl (case map_of z d of Some e \<Rightarrow> e | None \<Rightarrow> 0)) z"

definition konstellationen :: "string \<Rightarrow> scores \<Rightarrow> scores" where
  "konstellationen j z =
     (let z = (if is_sub ''brustschmerzen'' j \<and> is_sub ''ausstrahlung'' j \<and> is_sub ''arm'' j
               then floor_at ''Akuter Herzinfarkt'' 90 z else z);
          z = (if is_sub ''fieber'' j \<and> is_sub ''nackensteifigkeit'' j \<and> is_sub ''kopfschmerzen'' j
               then floor_at ''Meningitis'' 90 z else z);
          z = (if (is_sub (''l'' @ uml_ae @ ''hmung'') j \<or> is_sub (''schw'' @ uml_ae @ ''che einseitig'') j) \<and>
                  is_sub (''sprachst'' @ uml_oe @ ''rung'') j
               then floor_at ''Schlaganfall'' 85 z else z);
          z = (if is_sub ''bauchschmerzen'' j \<and> is_sub ''erbrechen'' j \<and> is_sub ''rechtsseitig'' j
               then floor_at ''Appendizitis'' 80 z else z)
      in z)"

definition apply_medical_rules ::
  "string \<Rightarrow> vitals \<Rightarrow> string \<Rightarrow> string \<Rightarrow> py_error + scores" where
  "apply_medical_rules symptome vitals alter zusatzinfos =
     (let symptom_list = eingabe_liste symptome;
          j = join_sp symptom_list;
          sl = lower symptome;
          z = leitsymptom_pass symptom_list;
          vorerkrankungen = parse_vorerkrankungen zusatzinfos;
          untersuchungsergebnisse = parse_untersuchungsergebnisse zusatzinfos;
          laborwerte = parse_laborwerte zusatzinfos
      in case (if ist_kind alter \<or> any_in [(''s'' @ uml_ae @ ''ugling''), ''kind'', ''kindlich'', ''bellend''] sl
               then Inr (paediatric_rules j sl alter untersuchungsergebnisse z)
               else adult_rules j vitals untersuchungsergebnisse z) of
           Inl e \<Rightarrow> Inl e
         | Inr z \<Rightarrow>
             (case labor_rules j laborwerte (vorerkrankungen_rules j vorerkrankungen z) of
                Inl e \<Rightarrow> Inl e
              | Inr z \<Rightarrow> Inr (konstellationen j z)))"

section \<open>Filtering (core.py, filter\_unlikely\_diagnoses)\<close>

text \<open>\<open>for d in diagnosen.keys(): if d in names: diagnosen[d] = diagnosen[d] * f\<close>.\<close>

definition scale_names :: "string list \<Rightarrow> real \<Rightarrow> scores \<Rightarrow> scores" where
  "scale_names names f ds = map (\<lambda>(k, v). if k \<in> set names then (k, v * f) else (k, v)) ds"

definition adult_only_diagnoses :: "string list" where
  "adult_only_diagnoses =
     [''Angina pectoris'', ''Myokardinfarkt'', ''Akuter Herzinfarkt'', ''Kardiomyopathie'',
      ''Klimakterisches Syndrom'', ''Psoriasis'', ''Herzinsuffizienz'', ''Fazialisparese'',
      ''COPD'', ''Tiefe Beinvenenthrombose'', ''Lungenembolie'', ''Koronare Herzkrankheit'']"

definition child_only_diagnoses :: "string list" where
  "child_only_diagnoses =
     [''RSV-Bronchiolitis'', ''Pseudokrupp'', ''Bronchiolitis'', ''Epiglottitis'',
      (''S'' @ uml_ae @ ''uglingshusten''), ''Dreimonatskoliken'', ''Windeldermatitis'']"

definition red_flags :: "(string \<times> string list) list" where
  "red_flags =
     [((''pl'' @ uml_oe @ ''tzliche st'' @ uml_ae @ ''rkste kopfschmerzen''), [''Subarachnoidalblutung'', ''Meningitis'']),
      (''akuter vernichtungsschmerz'', [''Aortendissektion'', ''Akuter Herzinfarkt'']),
      (''atemstillstand'', [''Respiratorische Insuffizienz'', ''Kardiopulmonale Reanimation'']),
      ((''bewusstlosigkeit pl'' @ uml_oe @ ''tzlich''), [''Synkope'', ''Status epilepticus'', ''Hirnblutung''])]"

definition red_flag_pass :: "string list \<Rightarrow> scores \<Rightarrow> scores" where
  "red_flag_pass symptom_list ds =
     fold (\<lambda>symptom ds.
             fold (\<lambda>(flag, flag_diagnoses) ds.
                     if is_sub flag symptom then scale_names flag_diagnoses 5 ds else ds)
                  red_flags ds)
          symptom_list ds"

text \<open>Lines 469--474: the filter parses the vitals text itself; \<open>None\<close> and the empty text
  give no vitals.\<close>

definition filter_vitals_dict :: "string \<Rightarrow> vitals" where
  "filter_vitals_dict vitals =
     (if vitals = [] then []
      else fold (\<lambda>pair d.
                   if CHR '':'' \<in> set pair
                   then (let (key, value) = split_first CHR '':'' pair
                         in AList.update (strip key) (strip value) d)
                   else d)
             (split_on CHR '','' vitals) [])"

text \<open>Lines 530--549; both numbers are read before any score changes, and a value that does
  not parse leaves the block (\<open>except (ValueError, TypeError): pass\<close>).\<close>

definition vitals_cross_check :: "vitals \<Rightarrow> string \<Rightarrow> scores \<Rightarrow> scores" where
  "vitals_cross_check vitals_dict alter ds =
     (case (map_of vitals_dict ''T'', map_of vitals_dict ''HR'') of
        (Some tv, Some hv) \<Rightarrow>
          (case (py_float tv, py_int hv) of
             (Some temp, Some hr) \<Rightarrow>
               let ds = (if temp > 38.5 \<and> hr < 100
                         then scale_names [''Akuter Herzinfarkt'', ''Myokardinfarkt''] 0.1 ds
                         else ds);
                   ds = (if temp > 38.5 \<and> hr > 100 \<and>
                            alter \<in> set [''Kind'', ''Kleinkind'', (''S'' @ uml_ae @ ''ugling'')]
                         then map (\<lambda>(k, v).
                                if any_in [''Pneumonie'', ''Bronchiolitis'', ''Virale Infektion'',
                                           ''Bronchitis''] k
                                then (k, v * 2) else (k, v)) ds
                         else ds)
               in ds
           | _ \<Rightarrow> ds)
      | _ \<Rightarrow> ds)"

text \<open>Lines 552--558.\<close>

definition dysurie_cross_check :: "string \<Rightarrow> scores \<Rightarrow> scores" where
  "dysurie_cross_check j ds =
     (if is_sub ''dysurie'' j \<or> is_sub ''brennen beim wasserlassen'' j
      then map (\<lambda>(k, v).
             if k \<in> set [''Harnwegsinfektion'', ''Zystitis'', ''Pyelonephritis''] then (k, v * 3)
             else if is_sub ''kardial'' (lower k) \<or> is_sub ''herz'' (lower k) \<or>
                     is_sub ''infarkt'' (lower k)
             then (k, v * 0.02) else (k, v)) ds
      else ds)"

text \<open>Lines 560--570: what stays above the floor 1.0 is normalised to 100, then only what
  is above 2.0 is kept.\<close>

definition filter_tail :: "scores \<Rightarrow> scores" where
  "filter_tail ds =
     (let ds = map (\<lambda>(k, v). (k, max v 1)) (filter (\<lambda>(k, v). v > 1) ds);
          total = sum_list (map snd ds);
          ds = (if total > 0 then map (\<lambda>(k, v). (k, round1 (v / total * 100))) ds else ds)
      in filter (\<lambda>(k, v). v > 2) ds)"

definition filter_unlikely_diagnoses :: "scores \<Rightarrow> string \<Rightarrow> string \<Rightarrow> string \<Rightarrow> scores" where
  "filter_unlikely_diagnoses diagnosen symptome alter vitals =
     (let symptom_list = split_on CHR '','' (lower symptome);
          j = join_sp symptom_list;
          ds = (if ist_kind alter \<or> any_in [(''s'' @ uml_ae @ ''ugling''), ''kind'', ''kindlich''] (lower symptome)
                then scale_names adult_only_diagnoses 0.01 diagnosen
                else scale_names child_only_diagnoses 0.01 diagnosen);
          ds = (if is_sub ''brustschmerzen'' j \<and> (is_sub ''atemnot'' j \<or> is_sub ''kurzatmigkeit'' j)
                then scale_names [''Akuter Herzinfarkt'', ''Myokardinfarkt''] 2.5 ds else ds);
          ds = (if (is_sub (''l'' @ uml_ae @ ''hmung'') j \<or> is_sub (''schw'' @ uml_ae @ ''che'') j) \<and>
                   (is_sub (''sprachst'' @ uml_oe @ ''rung'') j \<or> is_sub ''sprachverlust'' j)
                then scale_names [''Schlaganfall''] 3 ds else ds);
          ds = red_flag_pass symptom_list ds;
          ds = (let vitals_dict = filter_vitals_dict vitals
                in if vitals_dict = [] then ds else vitals_cross_check vitals_dict alter ds);
          ds = dysurie_cross_check j ds
      in filter_tail ds)"

section \<open>Treatment and billing code (core.py, behandlung\_vorschlagen, abrechnungscode\_erzeugen)\<close>

definition behandlungen :: "(string \<times> string) list" where
  "behandlungen =
     [(''Akuter Herzinfarkt'',
       ''Sofortige Notfallbehandlung: Aspirin, Nitroglycerin, ggf. Katheterlabor''),
      ((''Lungenentz'' @ uml_ue @ ''ndung''),
       (''Antibiotika, Sauerstoff bei Bedarf, ausreichend Fl'' @ uml_ue @ ''ssigkeit'')),
      (''Virusgrippe'',
       (''Ruhe, ausreichend Fl'' @ uml_ue @ ''ssigkeit, Fiebersenkung, symptomatische Therapie'')),
      (''Bronchitis'',
       (''Bronchodilatatoren, Hustenl'' @ uml_oe @ ''ser, evtl. Antibiotika bei bakterieller Infektion'')),
      (''Pulmonalembolie'',
       ''Sofortige Hospitalisierung, Antikoagulantien, Sauerstofftherapie''),
      (''Perikarditis'',
       (''Entz'' @ uml_ue @ ''ndungshemmende Medikamente, Ruhe, kardiologische Kontrolle'')),
      (''Appendizitis'', ''Chirurgische Konsiliaruntersuchung, ggf. Appendektomie''),
      ((''Migr'' @ uml_ae @ ''ne''), (''Triptane, ruhige Umgebung, ausreichend Fl'' @ uml_ue @ ''ssigkeit, Ruhe'')),
      (''RSV-Bronchiolitis'',
       (''Symptomatische Therapie, Atemunterst'' @ uml_ue @ ''tzung, Fl'' @ uml_ue @ ''ssigkeitszufuhr, '' @ uml_Ue @ ''berwachung'')),
      (''Pseudokrupp'',
       (''Corticosteroide, k'' @ uml_ue @ ''hle feuchte Luft, Rachensprays, ggf. Adrenalin-Inhalation'')),
      (''Bronchiolitis'',
       (''Symptomatische Therapie, Atemunterst'' @ uml_ue @ ''tzung, Fl'' @ uml_ue @ ''ssigkeitszufuhr'')),
      (''Epiglottitis'',
       ''NOTFALL - Sofortige Krankenhauseinweisung, Intubationsbereitschaft, Antibiotika''),
      (''Akute Otitis media'',
       ''Analgetika, ggf. Antibiotika, Abschwellende Nasentropfen''),
      (''Gastroenteritis bei Kindern'',
       (''Fl'' @ uml_ue @ ''ssigkeitsersatz, Elektrolytl'' @ uml_oe @ ''sung, leichte Kost'')),
      (''Virale Atemwegsinfektion'',
       (''Symptomatische Therapie, Fl'' @ uml_ue @ ''ssigkeitszufuhr, Fiebersenkung'')),
      (''Meningitis'',
       (''NOTFALL - Sofortige Krankenhauseinweisung, Antibiotika, '' @ uml_Ue @ ''berwachung'')),
      (''Masern'',
       (''Symptomatische Therapie, Isolation, Vitamin A, Fl'' @ uml_ue @ ''ssigkeitszufuhr'')),
      (''Asthma-Exazerbation'',
       ''Inhalative Beta-2-Mimetika, systemische Steroide, Sauerstoff bei Bedarf''),
      (''COPD-Exazerbation'',
       ''Bronchodilatatoren, systemische Steroide, Antibiotika bei Infektion''),
      (''Entgleister Diabetes'',
       (''Fl'' @ uml_ue @ ''ssigkeits- und Elektrolyt-Ausgleich, Insulin, Ursachensuche'')),
      (''Bakterielle Infektion'',
       ''Breitspektrum-Antibiotika nach Abnahme von Kulturen''),
      (''Pyelonephritis'', (''Antibiotika, ausreichend Fl'' @ uml_ue @ ''ssigkeit, Fiebersenkung'')),
      (''Harnwegsinfektion'',
       (''Antibiotika, reichlich Fl'' @ uml_ue @ ''ssigkeit, evtl. Schmerzmittel'')),
      (''Hyperthyreose'',
       ''Thyreostatika, Beta-Blocker bei Tachykardie, endokrinologische Kontrolle''),
      (''Depression'',
       (''Psychotherapie, ggf. Antidepressiva nach fach'' @ uml_ae @ ''rztlicher Beurteilung''))]"

definition codes :: "(string \<times> string) list" where
  "codes =
     [(''Akuter Herzinfarkt'', ''I21.9''),
      ((''Lungenentz'' @ uml_ue @ ''ndung''), ''J18.9''),
      (''Virusgrippe'', ''J10.8''),
      (''Bronchitis'', ''J40''),
      (''Pulmonalembolie'', ''I26.9''),
      (''Perikarditis'', ''I30.9''),
      (''Appendizitis'', ''K35.80''),
      ((''Migr'' @ uml_ae @ ''ne''), ''G43.9''),
      (''RSV-Bronchiolitis'', ''J21.0''),
      (''Pseudokrupp'', ''J05.0''),
      (''Bronchiolitis'', ''J21.9''),
      (''Epiglottitis'', ''J05.1''),
      (''Akute Otitis media'', ''H66.9''),
      (''Gastroenteritis bei Kindern'', ''A09''),
      (''Virale Atemwegsinfektion'', ''J06.9''),
      (''Meningitis'', ''G03.9''),
      (''Masern'', ''B05.9''),
      (''Asthma-Exazerbation'', ''J45.901''),
      (''COPD-Exazerbation'', ''J44.1''),
      (''Entgleister Diabetes'', ''E10.9''),
      (''Bakterielle Infektion'', ''A49.9''),
      (''Pyelonephritis'', ''N10''),
      (''Harnwegsinfektion'', ''N39.0''),
      (''Hyperthyreose'', ''E05.9''),
      (''Depression'', ''F32.9'')]"

text \<open>\<open>max(diagnosen, key=diagnosen.get)\<close>: the first key of the largest value.\<close>

definition top_key :: "scores \<Rightarrow> string option" where
  "top_key ds =
     (case ds of
        [] \<Rightarrow> None
      | (k, v) # r \<Rightarrow>
          Some (fst (fold (\<lambda>(k', v') (bk, bv). if v' > bv then (k', v') else (bk, bv)) r (k, v))))"

definition behandlung_vorschlagen :: "scores \<Rightarrow> string \<times> string option" where
  "behandlung_vorschlagen diagnosen =
     (let top_diagnose = top_key diagnosen
      in (case top_diagnose of
            None \<Rightarrow> ''Facharzt konsultieren''
          | Some t \<Rightarrow> (case map_of behandlungen t of
                         Some b \<Rightarrow> b | None \<Rightarrow> ''Facharzt konsultieren''),
          top_diagnose))"

definition abrechnungscode_erzeugen :: "string option \<Rightarrow> string" where
  "abrechnungscode_erzeugen diagnose =
     (case diagnose of
        None \<Rightarrow> ''Unbekannt''
      | Some t \<Rightarrow> (case map_of codes t of Some c \<Rightarrow> c | None \<Rightarrow> ''Unbekannt''))"

section \<open>The classifier pipeline (core.py, diagnostizieren, patient\_verarbeiten)\<close>

text \<open>
  The trained classifier is a parameter: \<open>predict_proba\<close> takes the names of the matched
  symptoms and gives the classes with their probabilities (\<open>model.classes_\<close> zipped with
  \<open>model.predict_proba(...)[0]\<close>). A symptom identifier comes from the dictionary, so the
  lookup \<open>symptom_db[sid]\<close> finds it.
\<close>

definition diagnostizieren ::
  "'sid list \<Rightarrow> 'sid symptom_db \<Rightarrow> (string list \<Rightarrow> (string \<times> real) list) \<Rightarrow> string + scores" where
  "diagnostizieren symptom_ids db predict_proba =
     (if symptom_ids = [] then Inl (''Keine g'' @ uml_ue @ ''ltigen Symptome erkannt'')
      else
        let symptom_namen = List.map_filter (\<lambda>sid. map_option name (map_of db sid)) symptom_ids
        in Inr (map (\<lambda>(diagnose, prob). (diagnose, round1 (prob * 100)))
                  (filter (\<lambda>(diagnose, prob). prob > 0) (predict_proba symptom_namen))))"

text \<open>The confidence tier of a result. patient\_verarbeiten's dict has no key
  \<open>diagnose_konfidenz\<close>; only enhance\_ml\_results sets it, so the field is optional.\<close>

datatype konfidenz = Niedrig | Mittel | Hoch

record ml_result =
  diagnosen :: scores
  behandlung :: string
  abrechnungscode :: string
  nicht_erkannt :: "string list option"
  vitals_of :: vitals
  vital_warnings :: "string list"
  top_diagnose :: "string option"
  alter_of :: string
  diagnose_konfidenz :: "konfidenz option"

text \<open>The value under \<open>"fehler"\<close>: the message of diagnostizieren, or, when the classifier
  has a class named \<open>Fehler\<close>, that class's score (line 661 reads \<open>diagnosen["Fehler"]\<close>).\<close>

datatype fehler_value = FehlerText string | FehlerZahl real

datatype outcome = Fehler fehler_value "string list" | Ergebnis ml_result

text \<open>The age group is a string here, as diagnose passes it (its default is
  \<open>"Erwachsener"\<close>).\<close>

text \<open>Line 682: \<open>dict(sorted(diagnosen.items(), key=lambda x: x[1], reverse=True)[:8])\<close>; the
  sort is stable, so equal scores keep their order.\<close>

definition sort_desc :: "scores \<Rightarrow> scores" where
  "sort_desc ds = sort_key (\<lambda>x. - snd x) ds"

definition patient_verarbeiten ::
  "'sid symptom_db \<Rightarrow> (string list \<Rightarrow> (string \<times> real) list) \<Rightarrow>
   string \<Rightarrow> string \<Rightarrow> string \<Rightarrow> string \<Rightarrow> py_error + outcome" where
  "patient_verarbeiten db predict_proba eingabe vitals_string alter zusatz_info =
     (let (symptom_ids, unmatched) = symptome_abgleichen eingabe db
      in case diagnostizieren symptom_ids db predict_proba of
           Inl msg \<Rightarrow> Inr (Fehler (FehlerText msg) unmatched)
         | Inr scored \<Rightarrow>
             (case map_of scored ''Fehler'' of
                Some v \<Rightarrow> Inr (Fehler (FehlerZahl v) unmatched)
              | None \<Rightarrow>
                  let vitals = parse_vitals vitals_string;
                      warnings = check_vitals vitals alter
                  in case apply_medical_rules eingabe vitals alter zusatz_info of
                       Inl e \<Rightarrow> Inl e
                     | Inr zusatz_diagnosen \<Rightarrow>
                         let ds = merge_rules scored zusatz_diagnosen;
                             ds = adjust_diagnosis_with_vitals ds vitals alter;
                             ds = filter_unlikely_diagnoses ds eingabe alter [];
                             ds = take 8 (sort_desc ds);
                             (treatment, top) = behandlung_vorschlagen ds
                         in Inr (Ergebnis
                              \<lparr>diagnosen = ds,
                               behandlung = treatment,
                               abrechnungscode = abrechnungscode_erzeugen top,
                               nicht_erkannt = (if unmatched = [] then None else Some unmatched),
                               vitals_of = vitals,
                               vital_warnings = warnings,
                               top_diagnose = top,
                               alter_of = alter,
                               diagnose_konfidenz = None\<rparr>)))"

section \<open>Name matching (hybrid\_model.py, find\_matching\_diagnosis)\<close>

text \<open>\<open>s.split()\<close>: the runs of characters between white space.\<close>

fun words_acc :: "string \<Rightarrow> string \<Rightarrow> string list" where
  "words_acc cur [] = (if cur = [] then [] else [rev cur])"
| "words_acc cur (c # cs) =
     (if is_space c
      then (if cur = [] then words_acc [] cs else rev cur # words_acc [] cs)
      else words_acc (c # cur) cs)"

definition py_words :: "string \<Rightarrow> string list" where
  "py_words s = words_acc [] s"

text \<open>Lines 479 and 488: the number of common words over the larger word count. Two names
  without a word divide by zero.\<close>

definition word_overlap :: "string \<Rightarrow> string \<Rightarrow> py_error + real" where
  "word_overlap target diagnosis_lower =
     (let tw = py_words target; dw = py_words diagnosis_lower;
          m = max (length tw) (length dw)
      in if m = 0 then Inl ZeroDivisionError
         else Inr (real (length (remdups (filter (\<lambda>w. w \<in> set dw) tw))) / real m))"

fun partial_match ::
  "string \<Rightarrow> string list \<Rightarrow> string option \<times> real \<Rightarrow> py_error + string option \<times> real" where
  "partial_match target [] best = Inr best"
| "partial_match target (diagnosis # rest) (best_match, best_score) =
     (case word_overlap target (lower diagnosis) of
        Inl e \<Rightarrow> Inl e
      | Inr r \<Rightarrow>
          let score = (if is_sub target (lower diagnosis) \<or> is_sub (lower diagnosis) target
                       then r + 0.2 else r)
          in if score > best_score then partial_match target rest (Some diagnosis, score)
             else partial_match target rest (best_match, best_score))"

definition find_matching_diagnosis :: "string \<Rightarrow> scores \<Rightarrow> py_error + string option" where
  "find_matching_diagnosis target_diagnosis diagnoses_dict =
     (let target = lower target_diagnosis
      in case find (\<lambda>diagnosis. lower diagnosis = target) (map fst diagnoses_dict) of
           Some diagnosis \<Rightarrow> Inr (Some diagnosis)
         | None \<Rightarrow>
             (case partial_match target (map fst diagnoses_dict) (None, 0) of
                Inl e \<Rightarrow> Inl e
              | Inr (best_match, best_score) \<Rightarrow>
                  Inr (if best_score > 0.25 then best_match else None)))"

section \<open>Fusion (hybrid\_model.py, enhance\_ml\_results)\<close>

text \<open>
  The narrative advisor's parsed answer: the \<open>"diagnosen"\<close> object when the answer has one
  (a value that is no number is \<open>None\<close> and is skipped by the \<open>isinstance\<close> test), and the
  texts under \<open>"behandlung"\<close> and \<open>"abrechnungscode"\<close>, empty when absent. The empty answer
  \<open>{}\<close> is \<open>no_llm_results\<close>.
\<close>

record llm_result =
  llm_diagnosen :: "(string \<times> real option) list option"
  llm_behandlung :: string
  llm_abrechnungscode :: string

definition no_llm_results :: llm_result where
  "no_llm_results = \<lparr>llm_diagnosen = None, llm_behandlung = [], llm_abrechnungscode = []\<rparr>"

record similar_case =
  diagnoses :: "string list"
  similarity_score :: real

text \<open>Lines 522--530.\<close>

definition double_and_top :: "string \<Rightarrow> ml_result \<Rightarrow> ml_result" where
  "double_and_top d er =
     (case map_of (diagnosen er) d of
        Some v \<Rightarrow> er\<lparr>diagnosen := AList.update d (v * 2) (diagnosen er), top_diagnose := Some d\<rparr>
      | None \<Rightarrow> er)"

definition konstellation_boost :: "string \<Rightarrow> ml_result \<Rightarrow> ml_result" where
  "konstellation_boost st er =
     (let er = (if is_sub ''brustschmerzen'' st \<and> is_sub ''ausstrahlung'' st \<and> is_sub ''arm'' st
                then double_and_top ''Akuter Herzinfarkt'' er else er);
          er = (if is_sub ''fieber'' st \<and> is_sub ''nackensteifigkeit'' st \<and>
                   is_sub ''kopfschmerzen'' st
                then double_and_top ''Meningitis'' er else er)
      in er)"

text \<open>Lines 533--571: the allergy pattern replaces the map and returns.\<close>

definition is_allergy_case :: "string \<Rightarrow> bool" where
  "is_allergy_case st =
     ((is_sub ''ausschlag'' st \<or> is_sub ''quaddel'' st \<or> is_sub ''urtik'' st \<or> is_sub ''juck'' st) \<and>
      (any_in [''garnele'', ''nuss'', ''fisch'', ''milch'', ''ei'', ''verzehr'', ''lebensmittel''] st \<or>
       is_sub ''dyspnoe'' st))"

definition allergy_override :: "string \<Rightarrow> ml_result \<Rightarrow> ml_result" where
  "allergy_override st er =
     (if is_sub ''dyspnoe'' st \<or> is_sub ''atem'' st
      then er\<lparr>diagnosen := [(''Anaphylaktische Reaktion'', 45), (''Nahrungsmittelallergie'', 35),
                             (''Urtikaria'', 15), ((''Angio'' @ uml_oe @ ''dem''), 5)],
              top_diagnose := Some ''Anaphylaktische Reaktion'',
              behandlung := (''NOTFALL: Sofortige Gabe von Adrenalin, Antihistaminika, Glucocorticoide. '' @ uml_Ue @ ''berwachung der Vitalparameter. Ggf. Einweisung in Notaufnahme. Nach Stabilisierung Allergenvermeidung und Patientenschulung.''),
              abrechnungscode := ''T78.2''\<rparr>
      else er\<lparr>diagnosen := [(''Urtikaria'', 40), (''Nahrungsmittelallergie'', 35),
                             (''Allergische Reaktion'', 20), ((''Angio'' @ uml_oe @ ''dem''), 5)],
              top_diagnose := Some ''Urtikaria'',
              behandlung := (''Antihistaminika (z.B. Cetirizin), ggf. kurzfristig Glucocorticoide. Identifikation und Vermeidung des ausl'' @ uml_oe @ ''senden Allergens. Bei wiederholten Reaktionen allergologische Abkl'' @ uml_ae @ ''rung.''),
              abrechnungscode := ''L50.0''\<rparr>)"

text \<open>Lines 575--606: the urinary pattern replaces the map and returns.\<close>

definition is_uti_case :: "string \<Rightarrow> bool" where
  "is_uti_case st =
     (any_in [''dysurie'', ''brennen beim wasserlassen'', ''pollakisurie''] st \<and>
      \<not> is_sub ''brustschmerz'' st \<and> \<not> is_sub ''atemnot'' st)"

definition uti_override :: "string \<Rightarrow> string \<Rightarrow> ml_result \<Rightarrow> ml_result" where
  "uti_override st vitals_string er =
     (let has_fever = (is_sub ''fieber'' st \<or>
                       (vitals_string \<noteq> [] \<and> any_in [''T:38'', ''T:39'', ''T:40''] vitals_string));
          has_flank_pain = any_in [''flanke'', (''r'' @ uml_ue @ ''cken''), ''niere'', ''seitenschmerz''] st
      in if has_fever \<and> has_flank_pain
         then er\<lparr>diagnosen := [(''Pyelonephritis'', 60), (''Harnwegsinfektion'', 25),
                                (''Zystitis'', 15)],
                 top_diagnose := Some ''Pyelonephritis'',
                 behandlung := (''Antibiotika (z.B. Ciprofloxacin, Cefuroxim) f'' @ uml_ue @ ''r 7-14 Tage, reichlich Fl'' @ uml_ue @ ''ssigkeitszufuhr, Analgetika bei Bedarf. Bei schweren F'' @ uml_ae @ ''llen station'' @ uml_ae @ ''re Aufnahme erw'' @ uml_ae @ ''gen.''),
                 abrechnungscode := ''N10''\<rparr>
         else er\<lparr>diagnosen := [(''Harnwegsinfektion'', 60), (''Zystitis'', 35), (''Urethritis'', 5)],
                 top_diagnose := Some ''Harnwegsinfektion'',
                 behandlung := (''Antibiotika (z.B. Nitrofurantoin, Fosfomycin), reichlich Fl'' @ uml_ue @ ''ssigkeitszufuhr, ggf. Schmerzmittel. Bei h'' @ uml_ae @ ''ufiger Wiederkehr erweiterte Diagnostik.''),
                 abrechnungscode := ''N30.0''\<rparr>)"

text \<open>Lines 609--627: the stroke pattern, taken only when the map has \<open>Schlaganfall\<close>,
  returns without normalising.\<close>

definition is_stroke_case :: "string \<Rightarrow> bool" where
  "is_stroke_case st =
     ((is_sub (''l'' @ uml_ae @ ''hmung'') st \<or> is_sub (''halbseitige schw'' @ uml_ae @ ''che'') st) \<and>
      (is_sub (''sprachst'' @ uml_oe @ ''rung'') st \<or> is_sub ''aphasie'' st))"

definition stroke_override :: "real \<Rightarrow> ml_result \<Rightarrow> ml_result" where
  "stroke_override v er =
     er\<lparr>diagnosen := map (\<lambda>(k, w). if k \<noteq> ''Schlaganfall'' then (k, w * 0.3) else (k, w))
                          (AList.update ''Schlaganfall'' (max 85 (v * 3)) (diagnosen er)),
        top_diagnose := Some ''Schlaganfall'',
        behandlung := ''NOTFALL: Sofortiger Transport ins Krankenhaus mit Stroke Unit. Zeit ist Hirn! Bildgebung (CT/MRT), evtl. Thrombolyse oder mechanische Thrombektomie.'',
        abrechnungscode := ''I63.9''\<rparr>"

text \<open>
  Lines 632--650, the narrative advisor's diagnoses. \<open>if ml_match:\<close> is false for no match
  and for a matched name that is the empty string. An exception of find\_matching\_diagnosis
  leaves the function; the map as it stands then is returned with it, because
  \<open>ml_results.copy()\<close> is shallow and the caller's \<open>ml_results["diagnosen"]\<close> is this same map.
\<close>

definition llm_merge_step :: "string \<Rightarrow> real \<Rightarrow> string option \<Rightarrow> scores \<Rightarrow> scores" where
  "llm_merge_step diagnosis probability ml_match ds =
     (let novel = AList.update diagnosis (min (probability * 0.7) 40) ds
      in case ml_match of
           None \<Rightarrow> novel
         | Some m \<Rightarrow>
             if m = [] then novel
             else (case map_of ds m of
                     None \<Rightarrow> ds
                   | Some orig_prob \<Rightarrow>
                       let llm_weight = 0.4 + (0.3 * (probability / 100))
                       in AList.update m ((orig_prob * (1 - llm_weight)) + (probability * llm_weight)) ds))"

fun llm_merge_loop :: "(string \<times> real option) list \<Rightarrow> scores \<Rightarrow> (py_error \<times> scores) + scores" where
  "llm_merge_loop [] ds = Inr ds"
| "llm_merge_loop ((diagnosis, None) # rest) ds = llm_merge_loop rest ds"
| "llm_merge_loop ((diagnosis, Some probability) # rest) ds =
     (if probability > 0
      then (case find_matching_diagnosis diagnosis ds of
              Inl e \<Rightarrow> Inl (e, ds)
            | Inr ml_match \<Rightarrow> llm_merge_loop rest (llm_merge_step diagnosis probability ml_match ds))
      else llm_merge_loop rest ds)"

definition llm_merge :: "llm_result \<Rightarrow> scores \<Rightarrow> (py_error \<times> scores) + scores" where
  "llm_merge llm_results ds =
     (case llm_diagnosen llm_results of
        None \<Rightarrow> Inr ds
      | Some llm_diagnoses \<Rightarrow> llm_merge_loop llm_diagnoses ds)"

text \<open>Lines 654--683, the similar cases.\<close>

definition mimic_diagnoses :: "similar_case list \<Rightarrow> scores" where
  "mimic_diagnoses mimic_results =
     fold (\<lambda>c md.
             fold (\<lambda>diagnosis md.
                     AList.update diagnosis
                       ((case map_of md diagnosis of Some v \<Rightarrow> v | None \<Rightarrow> 0) + similarity_score c)
                       md)
                  (diagnoses c) md)
          mimic_results []"

definition mimic_merge_step :: "string \<Rightarrow> real \<Rightarrow> string option \<Rightarrow> scores \<Rightarrow> scores" where
  "mimic_merge_step diagnosis score ml_match ds =
     (let novel = (if score > 1.5 then AList.update diagnosis (min (score * 10) 25) ds else ds)
      in case ml_match of
           None \<Rightarrow> novel
         | Some m \<Rightarrow>
             if m = [] then novel
             else (case map_of ds m of
                     None \<Rightarrow> ds
                   | Some v \<Rightarrow>
                       let boost_factor = (if score > 0.5 then 1.0 + (score * 2.0)
                                           else 1.0 + (score * 1.5))
                       in AList.update m (v * boost_factor) ds))"

fun mimic_merge_loop :: "scores \<Rightarrow> scores \<Rightarrow> (py_error \<times> scores) + scores" where
  "mimic_merge_loop [] ds = Inr ds"
| "mimic_merge_loop ((diagnosis, score) # rest) ds =
     (case find_matching_diagnosis diagnosis ds of
        Inl e \<Rightarrow> Inl (e, ds)
      | Inr ml_match \<Rightarrow> mimic_merge_loop rest (mimic_merge_step diagnosis score ml_match ds))"

definition mimic_merge :: "similar_case list \<Rightarrow> scores \<Rightarrow> (py_error \<times> scores) + scores" where
  "mimic_merge mimic_results ds =
     (if mimic_results = [] then Inr ds
      else mimic_merge_loop (take 3 (sort_desc (mimic_diagnoses mimic_results))) ds)"

text \<open>Lines 688--693.\<close>

definition age_gate :: "string \<Rightarrow> scores \<Rightarrow> scores" where
  "age_gate alter ds =
     (if ist_kind alter
      then scale_names [''Myokardinfarkt'', ''Akuter Herzinfarkt'', ''Angina pectoris''] 0.05 ds
      else ds)"

text \<open>Lines 696--711.\<close>

definition critical_patterns :: "(string list \<times> string \<times> real) list" where
  "critical_patterns =
     [([''brustschmerzen'', ''schwitzen'', (uml_ue @ ''belkeit'')], ''Akuter Herzinfarkt'', 3.0),
      ([''fieber'', ''husten'', ''atemnot''], ''Pneumonie'', 2.5),
      ([''kopfschmerzen'', ''fieber'', ''erbrechen''], ''Meningitis'', 2.7),
      ([''bauchschmerzen'', ''erbrechen'', ''appetitlosigkeit''], ''Appendizitis'', 2.2),
      ([''dyspnoe'', ''husten'', ''orthopnoe''], ''Herzinsuffizienz'', 2.3)]"

definition critical_pattern_boost :: "string \<Rightarrow> ml_result \<Rightarrow> ml_result" where
  "critical_pattern_boost st er =
     fold (\<lambda>(pattern, target_diagnosis, factor) er.
             if list_all (\<lambda>symptom. is_sub symptom st) pattern
             then (case map_of (diagnosen er) target_diagnosis of
                     None \<Rightarrow> er
                   | Some v \<Rightarrow>
                       let er = er\<lparr>diagnosen := AList.update target_diagnosis (v * factor) (diagnosen er)\<rparr>
                       in if v * factor > 50 then er\<lparr>top_diagnose := Some target_diagnosis\<rparr> else er)
             else er)
          critical_patterns er"

text \<open>Lines 716--725: normalise to 100, keep what is at least 2.0, sort in descending
  order.\<close>

definition final_scores :: "scores \<Rightarrow> scores" where
  "final_scores ds = sort_desc (filter (\<lambda>(k, v). v \<ge> 2.0) (normalize_100 ds))"

text \<open>
  Lines 730--742 compare Python floats. A score of the sorted map is a decimal tenth in this
  model; the code holds the double nearest to it, and its subtraction gives the double nearest
  to the exact difference of the two doubles. \<open>to_double\<close> is that rounding (to nearest, a
  tie to the even significand of 53 bits), for magnitudes from \<open>2 ^ - 64\<close> on, which scores
  and their differences have; zero stays zero.
\<close>

definition round_half_even :: "real \<Rightarrow> int" where
  "round_half_even y =
     (let f = \<lfloor>y\<rfloor>; d = y - of_int f
      in if d < 1 / 2 then f else if 1 / 2 < d then f + 1 else if even f then f else f + 1)"

definition scale2 :: "real \<Rightarrow> int \<Rightarrow> real" where
  "scale2 x k = (if 0 \<le> k then x * 2 ^ nat k else x / 2 ^ nat (- k))"

definition to_double :: "real \<Rightarrow> real" where
  "to_double x =
     (if x = 0 then 0
      else let a = \<bar>x\<bar>;
               e = bitlen \<lfloor>a * 2 ^ 64\<rfloor> - 65 - 52;
               m = round_half_even (scale2 a (- e))
           in sgn x * scale2 (of_int m) e)"

definition float_sub :: "real \<Rightarrow> real \<Rightarrow> real" where
  "float_sub a b = to_double (to_double a - to_double b)"

text \<open>Lines 730--742: the confidence tier of a non-empty sorted map.\<close>

definition confidence_tier :: "scores \<Rightarrow> konfidenz" where
  "confidence_tier sorted_diagnoses =
     (let top_probability = snd (hd sorted_diagnoses)
      in if to_double top_probability > 40 \<and>
            (length sorted_diagnoses < 2 \<or>
             float_sub top_probability (snd (sorted_diagnoses ! 1)) > 15)
         then Hoch else Mittel)"

text \<open>Lines 713--750.\<close>

definition finalize :: "llm_result \<Rightarrow> ml_result \<Rightarrow> ml_result" where
  "finalize llm_results er =
     (let er = er\<lparr>diagnosen := final_scores (diagnosen er)\<rparr>
      in if diagnosen er = [] then er
         else
           let sorted_diagnoses = sort_desc (diagnosen er);
               er = er\<lparr>top_diagnose := Some (fst (hd sorted_diagnoses)),
                       diagnose_konfidenz := Some (confidence_tier sorted_diagnoses)\<rparr>;
               er = (if llm_behandlung llm_results \<noteq> []
                     then er\<lparr>behandlung := llm_behandlung llm_results\<rparr> else er);
               er = (if llm_abrechnungscode llm_results \<noteq> []
                     then er\<lparr>abrechnungscode := llm_abrechnungscode llm_results\<rparr> else er)
           in er)"

definition enhance_ml_results ::
  "ml_result \<Rightarrow> llm_result \<Rightarrow> similar_case list \<Rightarrow> string \<Rightarrow> string \<Rightarrow> string \<Rightarrow> string \<Rightarrow>
   (py_error \<times> scores) + ml_result" where
  "enhance_ml_results ml_results llm_results mimic_results symptome vitals_string alter zusatz_info =
     (let symptom_text = lower symptome @ '' '' @ lower zusatz_info;
          er = konstellation_boost symptom_text ml_results
      in if is_allergy_case symptom_text then Inr (allergy_override symptom_text er)
         else if is_uti_case symptom_text then Inr (uti_override symptom_text vitals_string er)
         else
           (case (if is_stroke_case symptom_text then map_of (diagnosen er) ''Schlaganfall''
                  else None) of
              Some v \<Rightarrow> Inr (stroke_override v er)
            | None \<Rightarrow>
                (case llm_merge llm_results (diagnosen er) of
                   Inl e \<Rightarrow> Inl e
                 | Inr ds \<Rightarrow>
                     (case mimic_merge mimic_results ds of
                        Inl e \<Rightarrow> Inl e
                      | Inr ds \<Rightarrow>
                          Inr (finalize llm_results
                                 (critical_pattern_boost symptom_text
                                    (er\<lparr>diagnosen := age_gate alter ds\<rparr>)))))))"

section \<open>The hybrid diagnosis (hybrid\_model.py, diagnose)\<close>

text \<open>
  The collaborators of the pipeline are parameters. \<open>mimic_stage\<close> is the \<open>try\<close> block of
  lines 780--805 (the case-similarity lookup with what it extracts from the additional
  information): it raises or returns cases. \<open>provider\<close> says whether
  get\_available\_llm\_provider finds one. \<open>llm_stage\<close> is the \<open>try\<close> block of lines 815--839
  (prompt, call of the language model, parsing): it raises, returns an error object from the
  call or from the parser, or returns a parsed answer. \<open>calls\<close> lists the collaborators that
  were invoked.
\<close>

datatype mimic_outcome = MimicRaised | MimicCases "similar_case list"

datatype llm_outcome = LlmRaised | LlmErrorDict | LlmParseError | LlmParsed llm_result

datatype source_tag = ml_model | ml_mimic | ml_llm | hybrid

datatype stage_call = MimicLookup | LlmCall

record 'sid env =
  symptom_db_of :: "'sid symptom_db"
  predict_proba :: "string list \<Rightarrow> (string \<times> real) list"
  mimic_stage :: "string \<Rightarrow> string \<Rightarrow> string \<Rightarrow> string \<Rightarrow> mimic_outcome"
  provider :: bool
  llm_stage :: "string \<Rightarrow> string \<Rightarrow> string \<Rightarrow> string \<Rightarrow> llm_outcome"

record diagnose_return =
  result :: outcome
  source :: source_tag
  calls :: "stage_call list"

definition diagnose ::
  "'sid env \<Rightarrow> string \<Rightarrow> string \<Rightarrow> string \<Rightarrow> string \<Rightarrow> py_error + diagnose_return" where
  "diagnose env symptome vitals_string alter zusatz_info =
     (case patient_verarbeiten (symptom_db_of env) (predict_proba env)
             symptome vitals_string alter zusatz_info of
        Inl e \<Rightarrow> Inl e
      | Inr (Fehler f unmatched) \<Rightarrow>
          Inr \<lparr>result = Fehler f unmatched, source = ml_model, calls = []\<rparr>
      | Inr (Ergebnis ml_results) \<Rightarrow>
          let mimic_results =
                (case mimic_stage env symptome vitals_string alter zusatz_info of
                   MimicRaised \<Rightarrow> [] | MimicCases cs \<Rightarrow> cs);
              llm_results =
                (if provider env
                 then (case llm_stage env symptome vitals_string alter zusatz_info of
                         LlmParsed r \<Rightarrow> r | _ \<Rightarrow> no_llm_results)
                 else no_llm_results);
              invoked = MimicLookup # (if provider env then [LlmCall] else [])
          in case enhance_ml_results ml_results llm_results mimic_results
                    symptome vitals_string alter zusatz_info of
               Inl (e, ds) \<Rightarrow>
                 Inr \<lparr>result = Ergebnis (ml_results\<lparr>diagnosen := ds\<rparr>), source = ml_model,
                      calls = invoked\<rparr>
             | Inr enhanced_results \<Rightarrow>
                 Inr \<lparr>result = Ergebnis enhanced_results,
                      source = (if \<not> provider env \<and> mimic_results = [] then ml_model
                                else if \<not> provider env then ml_mimic
                                else if mimic_results = [] then ml_llm
                                else hybrid),
                      calls = invoked\<rparr>)"

text \<open>The diagnosis map that a call hands back; empty for an error result and for an
  exception.\<close>

definition returned_scores :: "py_error + diagnose_return \<Rightarrow> scores" where
  "returned_scores r =
     (case r of
        Inl e \<Rightarrow> []
      | Inr d \<Rightarrow> (case result d of Fehler f unmatched \<Rightarrow> [] | Ergebnis m \<Rightarrow> diagnosen m))"

definition returned_konfidenz :: "py_error + diagnose_return \<Rightarrow> konfidenz option" where
  "returned_konfidenz r =
     (case r of
        Inl e \<Rightarrow> None
      | Inr d \<Rightarrow> (case result d of
                     Fehler f unmatched \<Rightarrow> None
                   | Ergebnis m \<Rightarrow> diagnose_konfidenz m))"

definition returned_source :: "py_error + diagnose_return \<Rightarrow> source_tag option" where
  "returned_source r = (case r of Inl e \<Rightarrow> None | Inr d \<Rightarrow> Some (source d))"

section \<open>Concrete collaborators for the evaluations\<close>

definition demo_predict :: "string list \<Rightarrow> (string \<times> real) list" where
  "demo_predict symptom_namen =
     (if ''Fieber'' \<in> set symptom_namen then [(''Virusgrippe'', 1)]
      else [(''Akuter Herzinfarkt'', 0.5), (''Virusgrippe'', 0.3), (''Pseudokrupp'', 0.2)])"

definition demo_llm_answer :: llm_result where
  "demo_llm_answer =
     \<lparr>llm_diagnosen = Some [(''Gastritis'', Some 2.9), (''Sinusitis'', Some 2)],
      llm_behandlung = [], llm_abrechnungscode = []\<rparr>"

definition demo_env :: "nat env" where
  "demo_env =
     \<lparr>symptom_db_of = demo_db, predict_proba = demo_predict,
      mimic_stage = (\<lambda>symptome vitals_string alter zusatz_info. MimicCases []),
      provider = True,
      llm_stage = (\<lambda>symptome vitals_string alter zusatz_info. LlmParsed demo_llm_answer)\<rparr>"

text \<open>Both optional stages fail: the similarity lookup raises, and a provider is configured
  but its call raises.\<close>

definition failing_env :: "nat env" where
  "failing_env =
     \<lparr>symptom_db_of = demo_db, predict_proba = demo_predict,
      mimic_stage = (\<lambda>symptome vitals_string alter zusatz_info. MimicRaised),
      provider = True,
      llm_stage = (\<lambda>symptome vitals_string alter zusatz_info. LlmRaised)\<rparr>"

text \<open>The same failing similarity lookup, and no provider configured.\<close>

definition no_provider_env :: "nat env" where
  "no_provider_env =
     \<lparr>symptom_db_of = demo_db, predict_proba = demo_predict,
      mimic_stage = (\<lambda>symptome vitals_string alter zusatz_info. MimicRaised),
      provider = False,
      llm_stage = (\<lambda>symptome vitals_string alter zusatz_info. LlmRaised)\<rparr>"

text \<open>A classifier result as it enters the fusion, with the given scores.\<close>

definition ml_result_with :: "scores \<Rightarrow> ml_result" where
  "ml_result_with ds =
     \<lparr>diagnosen = ds, behandlung = [], abrechnungscode = [], nicht_erkannt = None,
      vitals_of = [], vital_warnings = [], top_diagnose = None, alter_of = ''Erwachsener'',
      diagnose_konfidenz = None\<rparr>"

section \<open>Facts about rounding and normalising\<close>

lemma round1_cases:
  obtains k :: int where "round1 x = of_int k / 10" "\<bar>of_int k - x * 10\<bar> \<le> 1 / 2"
proof -
  define y where "y = x * 10"
  define f where "f = \<lfloor>y\<rfloor>"
  define d where "d = y - of_int f"
  have d0: "0 \<le> d" and d1: "d < 1" unfolding d_def f_def by linarith+
  define k where "k = (if d < 1 / 2 then f else if 1 / 2 < d then f + 1
                 else if even f then f else f + 1)"
  have r: "round1 x = of_int k / 10"
    unfolding round1_def Let_def k_def d_def f_def y_def by simp
  have "\<bar>of_int k - y\<bar> \<le> 1 / 2"
    using d0 d1 unfolding k_def d_def by (auto simp: abs_if)
  with r that show thesis unfolding y_def by blast
qed

lemma round1_err: "\<bar>round1 x - x\<bar> \<le> 1 / 20"
proof -
  obtain k :: int where k: "round1 x = of_int k / 10" "\<bar>of_int k - x * 10\<bar> \<le> 1 / 2"
    by (rule round1_cases)
  have "round1 x - x = (of_int k - x * 10) / 10" unfolding k(1) by simp
  then have "\<bar>round1 x - x\<bar> = \<bar>(of_int k - x * 10) / 10\<bar>" by (simp only:)
  also have "\<dots> = \<bar>of_int k - x * 10\<bar> / 10" by simp
  finally show ?thesis using k(2) by simp
qed

lemma round1_tenth: "round1 (of_int k / 10) = of_int k / 10"
  by (simp add: round1_def Let_def)

lemma round1_idem: "round1 (round1 x) = round1 x"
proof -
  obtain k :: int where k: "round1 x = of_int k / 10" by (rule round1_cases)
  show ?thesis unfolding k by (rule round1_tenth)
qed

lemma round1_nonneg: "0 \<le> x \<Longrightarrow> 0 \<le> round1 x"
proof -
  assume x: "0 \<le> x"
  obtain k :: int where k: "round1 x = of_int k / 10" "\<bar>of_int k - x * 10\<bar> \<le> 1 / 2"
    by (rule round1_cases)
  from k(2) x have "(of_int k :: real) \<ge> - (1 / 2)" by linarith
  then have "(of_int k :: real) > -1" by linarith
  then have "k > -1" by linarith
  then have "0 \<le> k" by simp
  then show ?thesis unfolding k(1) by simp
qed

lemma normalize_100_keys: "map fst (normalize_100 ds) = map fst ds"
  by (simp add: normalize_100_def Let_def case_prod_beta o_def)

lemma length_normalize_100: "length (normalize_100 ds) = length ds"
  by (simp add: normalize_100_def Let_def)

lemma sum_list_diff_bound:
  fixes f g :: "'a \<Rightarrow> real"
  assumes "\<And>x. x \<in> set xs \<Longrightarrow> \<bar>f x - g x\<bar> \<le> c"
  shows "\<bar>sum_list (map f xs) - sum_list (map g xs)\<bar> \<le> real (length xs) * c"
  using assms
proof (induction xs)
  case Nil
  then show ?case by simp
next
  case (Cons x xs)
  have a: "\<bar>f x - g x\<bar> \<le> c" using Cons.prems by simp
  have b: "\<bar>sum_list (map f xs) - sum_list (map g xs)\<bar> \<le> real (length xs) * c"
    using Cons by simp
  have "\<bar>sum_list (map f (x # xs)) - sum_list (map g (x # xs))\<bar>
        \<le> \<bar>f x - g x\<bar> + \<bar>sum_list (map f xs) - sum_list (map g xs)\<bar>"
    by simp
  also have "\<dots> \<le> c + real (length xs) * c" using a b by linarith
  also have "\<dots> = real (length (x # xs)) * c" by (simp add: algebra_simps)
  finally show ?case .
qed

lemma sum_list_shares:
  fixes ds :: "('a \<times> real) list"
  assumes "sum_list (map snd ds) \<noteq> 0"
  shows "sum_list (map (\<lambda>x. snd x / sum_list (map snd ds) * 100) ds) = 100"
proof -
  define c where "c = 100 / sum_list (map snd ds)"
  have "sum_list (map (\<lambda>x. snd x / sum_list (map snd ds) * 100) ds)
        = sum_list (map (\<lambda>x. snd x * c) ds)"
    by (simp add: c_def)
  also have "\<dots> = sum_list (map snd ds) * c"
    by (simp add: sum_list_mult_const)
  finally show ?thesis using assms by (simp add: c_def)
qed

lemma normalize_100_sum:
  assumes "sum_list (map snd ds) > 0"
  shows "\<bar>sum_list (map snd (normalize_100 ds)) - 100\<bar> \<le> real (length ds) / 20"
proof -
  let ?T = "sum_list (map snd ds)"
  have n: "map snd (normalize_100 ds) = map (\<lambda>x. round1 (snd x / ?T * 100)) ds"
    using assms by (simp add: normalize_100_def Let_def case_prod_beta)
  have s: "sum_list (map (\<lambda>x. snd x / ?T * 100) ds) = 100"
    using assms sum_list_shares [of ds] by simp
  have "\<bar>sum_list (map (\<lambda>x. round1 (snd x / ?T * 100)) ds)
         - sum_list (map (\<lambda>x. snd x / ?T * 100) ds)\<bar> \<le> real (length ds) * (1 / 20)"
    by (rule sum_list_diff_bound) (rule round1_err)
  with n s show ?thesis by simp
qed

lemma normalize_100_nth:
  assumes "sum_list (map snd ds) > 0" "i < length ds"
  shows "snd (normalize_100 ds ! i) = round1 (snd (ds ! i) / sum_list (map snd ds) * 100)"
  using assms by (simp add: normalize_100_def Let_def case_prod_beta)

lemma normalize_100_tenths:
  assumes "sum_list (map snd ds) > 0" "x \<in> set (normalize_100 ds)"
  shows "round1 (snd x) = snd x"
  using assms by (auto simp: normalize_100_def Let_def round1_idem)

lemma normalize_100_fixed:
  assumes "sum_list (map snd ds) = 100" "\<And>x. x \<in> set ds \<Longrightarrow> round1 (snd x) = snd x"
  shows "normalize_100 ds = ds"
proof -
  have "map (\<lambda>(k, v). (k, round1 ((v / 100) * 100))) ds = map (\<lambda>x. x) ds"
    by (rule map_cong) (use assms(2) in \<open>auto simp: case_prod_beta\<close>)
  with assms(1) show ?thesis by (simp add: normalize_100_def Let_def)
qed

section \<open>Facts about the final step\<close>

lemma sorted_sort_desc: "sorted (map (\<lambda>x. - snd x) (sort_desc ds))"
  unfolding sort_desc_def by (rule sorted_sort_key)

lemma sort_desc_idem: "sort_desc (sort_desc ds) = sort_desc ds"
  using sorted_sort_desc [of ds] by (simp add: sort_desc_def sort_key_id_if_sorted)

lemma set_sort_desc: "set (sort_desc ds) = set ds"
  by (simp add: sort_desc_def)

lemma length_sort_desc: "length (sort_desc ds) = length ds"
  by (simp add: sort_desc_def)

lemma sum_list_sort_desc: "sum_list (map snd (sort_desc ds)) = sum_list (map snd ds)"
proof -
  have "mset (map snd (sort_desc ds)) = mset (map snd ds)"
    by (simp add: sort_desc_def)
  then have "sum_mset (mset (map snd (sort_desc ds))) = sum_mset (mset (map snd ds))"
    by (simp only:)
  then show ?thesis by (simp only: sum_mset_sum_list)
qed

lemma sort_desc_head_max:
  assumes "sort_desc ds = x # xs" "y \<in> set xs"
  shows "snd y \<le> snd x"
proof -
  from sorted_sort_desc [of ds] assms(1) have "sorted (map (\<lambda>x. - snd x) (x # xs))" by simp
  with assms(2) show ?thesis by auto
qed

lemma final_scores_sorted: "sorted (map (\<lambda>x. - snd x) (final_scores ds))"
  unfolding final_scores_def by (rule sorted_sort_desc)

lemma sort_desc_final_scores: "sort_desc (final_scores ds) = final_scores ds"
  unfolding final_scores_def by (rule sort_desc_idem)

lemma final_scores_ge2: "x \<in> set (final_scores ds) \<Longrightarrow> 2 \<le> snd x"
  by (auto simp: final_scores_def set_sort_desc)

lemma sum_list_filter_split:
  fixes xs :: "('a \<times> real) list"
  shows "sum_list (map snd (filter P xs)) + sum_list (map snd (filter (\<lambda>x. \<not> P x) xs))
         = sum_list (map snd xs)"
  by (induction xs) auto

lemma sum_list_upper:
  fixes xs :: "('a \<times> real) list"
  assumes "\<And>x. x \<in> set xs \<Longrightarrow> snd x \<le> c" "0 \<le> c"
  shows "sum_list (map snd xs) \<le> real (length xs) * c"
  using assms
proof (induction xs)
  case Nil
  then show ?case by simp
next
  case (Cons x xs)
  have "snd x \<le> c" using Cons.prems(1) by simp
  moreover have "sum_list (map snd xs) \<le> real (length xs) * c"
    using Cons by simp
  ultimately show ?case by (simp add: algebra_simps)
qed

lemma sum_list_lower:
  fixes xs :: "('a \<times> real) list"
  assumes "\<And>x. x \<in> set xs \<Longrightarrow> 0 \<le> snd x"
  shows "0 \<le> sum_list (map snd xs)"
  using assms by (induction xs) auto

lemma normalize_100_nonneg:
  assumes "\<And>x. x \<in> set ds \<Longrightarrow> 0 \<le> snd x" "y \<in> set (normalize_100 ds)"
  shows "0 \<le> snd y"
proof (cases "0 < sum_list (map snd ds)")
  case True
  with assms(2) obtain x where x: "x \<in> set ds" "snd y = round1 (snd x / sum_list (map snd ds) * 100)"
    by (auto simp: normalize_100_def Let_def)
  from assms(1) [OF x(1)] True have "0 \<le> snd x / sum_list (map snd ds) * 100" by simp
  then show ?thesis unfolding x(2) by (rule round1_nonneg)
next
  case False
  with assms show ?thesis by (simp add: normalize_100_def Let_def)
qed

lemma final_scores_sum:
  assumes nn: "\<And>x. x \<in> set ds \<Longrightarrow> 0 \<le> snd x" and pos: "0 < sum_list (map snd ds)"
  shows "sum_list (map snd (final_scores ds)) \<le> 100 + real (length ds) / 20"
    and "100 - real (length ds) / 20 - 2 * real (length ds - length (final_scores ds))
           \<le> sum_list (map snd (final_scores ds))"
proof -
  let ?n = "normalize_100 ds"
  let ?P = "\<lambda>x :: string \<times> real. 2 \<le> snd x"
  let ?kept = "filter ?P ?n"
  let ?dropped = "filter (\<lambda>x. \<not> ?P x) ?n"
  have "(\<lambda>(k :: string, v :: real). 2 \<le> v) = ?P" by (simp add: fun_eq_iff)
  then have fs: "final_scores ds = sort_desc ?kept"
    by (simp add: final_scores_def)
  have sk: "sum_list (map snd (final_scores ds)) = sum_list (map snd ?kept)"
    unfolding fs by (rule sum_list_sort_desc)
  have split: "sum_list (map snd ?kept) + sum_list (map snd ?dropped) = sum_list (map snd ?n)"
    by (rule sum_list_filter_split)
  have total: "\<bar>sum_list (map snd ?n) - 100\<bar> \<le> real (length ds) / 20"
    by (rule normalize_100_sum [OF pos])
  have d0: "0 \<le> sum_list (map snd ?dropped)"
    by (rule sum_list_lower) (use normalize_100_nonneg [OF nn] in auto)
  have d2: "sum_list (map snd ?dropped) \<le> real (length ?dropped) * 2"
    by (rule sum_list_upper) auto
  have "length ?kept + length ?dropped = length ?n"
    by (rule sum_length_filter_compl)
  then have len: "length ?dropped = length ds - length (final_scores ds)"
    unfolding fs by (simp add: length_sort_desc length_normalize_100)
  from sk split total d0 show "sum_list (map snd (final_scores ds)) \<le> 100 + real (length ds) / 20"
    by linarith
  from sk split total d2 len
  show "100 - real (length ds) / 20 - 2 * real (length ds - length (final_scores ds))
           \<le> sum_list (map snd (final_scores ds))"
    by linarith
qed

lemma final_scores_nonempty_pos:
  assumes nn: "\<And>x. x \<in> set ds \<Longrightarrow> 0 \<le> snd x" and ne: "final_scores ds \<noteq> []"
  shows "0 < sum_list (map snd ds)"
proof (rule ccontr)
  assume "\<not> 0 < sum_list (map snd ds)"
  then have le: "sum_list (map snd ds) \<le> 0" by simp
  have zero: "\<And>x. x \<in> set ds \<Longrightarrow> snd x \<le> 0"
  proof -
    fix x assume x: "x \<in> set ds"
    have "snd x \<le> sum_list (map snd ds)"
      by (rule member_le_sum_list) (use x nn in auto)
    with le show "snd x \<le> 0" by simp
  qed
  from le have "normalize_100 ds = ds" by (simp add: normalize_100_def Let_def)
  then have "final_scores ds = sort_desc (filter (\<lambda>(k, v). 2 \<le> v) ds)"
    by (simp add: final_scores_def)
  moreover have "filter (\<lambda>(k, v). 2 \<le> v) ds = []"
    using zero by (auto simp: filter_empty_conv) fastforce
  ultimately have "final_scores ds = []" by (simp add: sort_desc_def)
  with ne show False by simp
qed

lemma diagnosen_finalize: "diagnosen (finalize llm_results er) = final_scores (diagnosen er)"
  by (simp add: finalize_def Let_def)

section \<open>Facts about strings\<close>

lemma is_sub_sublist: "is_sub n h = sublist n h"
  by (induction h) (auto simp: sublist_Cons_right)

section \<open>Facts about symptom matching\<close>

lemma entry_matches_sublist:
  "entry_matches t d =
     (sublist t (lower (name d)) \<or> (\<exists>syn \<in> set (synonyme d). sublist (lower syn) t))"
  by (simp add: entry_matches_def is_sub_sublist list_ex_iff)

lemma find_entry_None:
  "(find_entry t db = None) = (\<forall>(s, d) \<in> set db. \<not> entry_matches t d)"
  by (induction db) (auto split: if_splits)

lemma find_entry_Some:
  "(find_entry t db = Some sid) =
     (\<exists>pre d post. db = pre @ (sid, d) # post \<and> entry_matches t d \<and>
        (\<forall>(s', d') \<in> set pre. \<not> entry_matches t d'))"
proof (induction db)
  case Nil
  then show ?case by simp
next
  case (Cons e db)
  obtain s0 d0 where e: "e = (s0, d0)" by (cases e)
  show ?case
  proof (cases "entry_matches t d0")
    case True
    have "(\<exists>pre d post. (s0, d0) # db = pre @ (sid, d) # post \<and> entry_matches t d \<and>
             (\<forall>(s', d') \<in> set pre. \<not> entry_matches t d')) = (s0 = sid)"
    proof
      assume "\<exists>pre d post. (s0, d0) # db = pre @ (sid, d) # post \<and> entry_matches t d \<and>
             (\<forall>(s', d') \<in> set pre. \<not> entry_matches t d')"
      then obtain pre d post where p: "(s0, d0) # db = pre @ (sid, d) # post"
        and q: "\<forall>(s', d') \<in> set pre. \<not> entry_matches t d'" by blast
      show "s0 = sid"
      proof (cases pre)
        case Nil
        with p show ?thesis by simp
      next
        case (Cons a pre')
        with p have "a = (s0, d0)" by simp
        with Cons q True show ?thesis by auto
      qed
    next
      assume "s0 = sid"
      then have "(s0, d0) # db = [] @ (sid, d0) # db" by simp
      with True show "\<exists>pre d post. (s0, d0) # db = pre @ (sid, d) # post \<and> entry_matches t d \<and>
             (\<forall>(s', d') \<in> set pre. \<not> entry_matches t d')"
        by (metis empty_iff list.set(1))
    qed
    with True e show ?thesis by auto
  next
    case False
    have "(\<exists>pre d post. (s0, d0) # db = pre @ (sid, d) # post \<and> entry_matches t d \<and>
             (\<forall>(s', d') \<in> set pre. \<not> entry_matches t d')) =
          (\<exists>pre d post. db = pre @ (sid, d) # post \<and> entry_matches t d \<and>
             (\<forall>(s', d') \<in> set pre. \<not> entry_matches t d'))"
    proof
      assume "\<exists>pre d post. (s0, d0) # db = pre @ (sid, d) # post \<and> entry_matches t d \<and>
             (\<forall>(s', d') \<in> set pre. \<not> entry_matches t d')"
      then obtain pre d post where p: "(s0, d0) # db = pre @ (sid, d) # post"
        and m: "entry_matches t d"
        and q: "\<forall>(s', d') \<in> set pre. \<not> entry_matches t d'" by blast
      show "\<exists>pre d post. db = pre @ (sid, d) # post \<and> entry_matches t d \<and>
             (\<forall>(s', d') \<in> set pre. \<not> entry_matches t d')"
      proof (cases pre)
        case Nil
        with p m False show ?thesis by simp
      next
        case (Cons a pre')
        with p have "db = pre' @ (sid, d) # post" by simp
        moreover from Cons q have "\<forall>(s', d') \<in> set pre'. \<not> entry_matches t d'" by simp
        ultimately show ?thesis using m by blast
      qed
    next
      assume "\<exists>pre d post. db = pre @ (sid, d) # post \<and> entry_matches t d \<and>
             (\<forall>(s', d') \<in> set pre. \<not> entry_matches t d')"
      then obtain pre d post where p: "db = pre @ (sid, d) # post"
        and m: "entry_matches t d"
        and q: "\<forall>(s', d') \<in> set pre. \<not> entry_matches t d'" by blast
      from p have "(s0, d0) # db = ((s0, d0) # pre) @ (sid, d) # post" by simp
      moreover from q False have "\<forall>(s', d') \<in> set ((s0, d0) # pre). \<not> entry_matches t d'"
        by simp
      ultimately show "\<exists>pre d post. (s0, d0) # db = pre @ (sid, d) # post \<and> entry_matches t d \<and>
             (\<forall>(s', d') \<in> set pre. \<not> entry_matches t d')"
        using m by blast
    qed
    with False e Cons.IH show ?thesis by simp
  qed
qed

lemma abgleichen_loop_eq:
  "abgleichen_loop db ts (ids, um) =
     (ids @ List.map_filter (\<lambda>t. find_entry t db) (filter (\<lambda>t. t \<noteq> []) ts),
      um @ filter (\<lambda>t. t \<noteq> [] \<and> find_entry t db = None) ts)"
  by (induction ts arbitrary: ids um) (auto simp: List.map_filter_simps split: option.splits)

section \<open>Symptom matching: the claims\<close>

text \<open>
  The canonical name is tested in the other direction than the synonyms: line 270 asks
  whether the term occurs in the name. A term that contains the name is not matched, and a
  fragment of the name is.
\<close>

theorem symptome_abgleichen_match_counterexample:
  "sublist (lower ''Fieber'') ''hohes fieber'' \<and>
   symptome_abgleichen ''Hohes Fieber'' demo_db = ([], [''hohes fieber'']) \<and>
   \<not> sublist (lower ''Fieber'') ''hus'' \<and> \<not> sublist (lower ''Temperatur'') ''hus'' \<and>
   \<not> sublist (lower ''fever'') ''hus'' \<and> \<not> sublist (lower ''Husten'') ''hus'' \<and>
   \<not> sublist (lower ''hust'') ''hus'' \<and> \<not> sublist (lower ''Reizhusten'') ''hus'' \<and>
   \<not> sublist (lower ''Brustschmerzen'') ''hus'' \<and> \<not> sublist (lower ''Kurzatmigkeit'') ''hus'' \<and>
   symptome_abgleichen ''hus'' demo_db = ([2], [])"
  by code_simp

text \<open>
  C3 (as amended). Every non-empty term of the input, trimmed and lower-cased, is matched to
  the first entry in dictionary order for which the term is a substring of the entry's
  lower-cased canonical name, or one of the entry's lower-cased synonyms is a substring of
  the term; the matched identifiers are collected in input order.
\<close>

theorem symptome_abgleichen_match:
  "fst (symptome_abgleichen eingabe db) =
     List.map_filter (\<lambda>t. find_entry t db) (filter (\<lambda>t. t \<noteq> []) (eingabe_liste eingabe)) \<and>
   (find_entry t db = Some sid) =
     (\<exists>pre d post. db = pre @ (sid, d) # post \<and> entry_matches t d \<and>
        (\<forall>(s', d') \<in> set pre. \<not> entry_matches t d')) \<and>
   entry_matches t d0 =
     (sublist t (lower (name d0)) \<or> (\<exists>syn \<in> set (synonyme d0). sublist (lower syn) t))"
  using find_entry_Some [of t db sid] entry_matches_sublist [of t d0]
  by (simp add: symptome_abgleichen_def abgleichen_loop_eq)

theorem symptome_abgleichen_match_witness:
  "fst (symptome_abgleichen ''Fie, trockener Reizhusten'' demo_db) = [1, 2] \<and>
   (\<exists>pre d post. demo_db = pre @ (2, d) # post \<and> entry_matches ''trockener reizhusten'' d \<and>
        (\<forall>(s', d') \<in> set pre. \<not> entry_matches ''trockener reizhusten'' d'))"
proof -
  have a: "find_entry ''trockener reizhusten'' demo_db = Some 2"
    by code_simp
  have b: "List.map_filter (\<lambda>t. find_entry t demo_db)
             (filter (\<lambda>t. t \<noteq> []) (eingabe_liste ''Fie, trockener Reizhusten'')) = [1, 2]"
    by code_simp
  from symptome_abgleichen_match [of "''Fie, trockener Reizhusten''" demo_db
        "''trockener reizhusten''" 2 undefined] a b
  show ?thesis by simp
qed

text \<open>
  The list of terms is lower-cased before the loop (line 260), so an unmatched term is
  reported in lower case.
\<close>

theorem symptome_abgleichen_unmatched_counterexample:
  "snd (symptome_abgleichen ''XYZZY123, fever'' demo_db) = [''xyzzy123''] \<and>
   ''XYZZY123'' \<notin> set (snd (symptome_abgleichen ''XYZZY123, fever'' demo_db))"
  by code_simp

text \<open>
  C8 (as amended). The unmatched list holds, in input order, exactly the non-empty terms that
  no dictionary entry matches, each in its trimmed and lower-cased form (inner spacing kept,
  original casing lost); a term that some entry matches never appears in it.
\<close>

theorem symptome_abgleichen_unmatched:
  "snd (symptome_abgleichen eingabe db) =
     filter (\<lambda>t. t \<noteq> [] \<and> find_entry t db = None)
       (map (\<lambda>s. lower (strip s)) (split_on CHR '','' eingabe)) \<and>
   (\<forall>t \<in> set (snd (symptome_abgleichen eingabe db)).
      find_entry t db = None \<and> (\<forall>(s, d) \<in> set db. \<not> entry_matches t d))"
  using find_entry_None [of _ db]
  by (auto simp add: symptome_abgleichen_def abgleichen_loop_eq eingabe_liste_def)

theorem symptome_abgleichen_unmatched_witness:
  "snd (symptome_abgleichen ''  Xyzzy  123 , Fever,,Husten'' demo_db) = [''xyzzy  123''] \<and>
   find_entry ''xyzzy  123'' demo_db = None"
proof -
  have "filter (\<lambda>t. t \<noteq> [] \<and> find_entry t demo_db = None)
          (map (\<lambda>s. lower (strip s)) (split_on CHR '','' ''  Xyzzy  123 , Fever,,Husten''))
        = [''xyzzy  123'']"
    by code_simp
  with symptome_abgleichen_unmatched [of "''  Xyzzy  123 , Fever,,Husten''" demo_db]
  show ?thesis by simp
qed

section \<open>Merging the rule engine's contributions\<close>

lemma merge_rules_map_of:
  "distinct (map fst zs) \<Longrightarrow>
   map_of (merge_rules ds zs) k =
     (case map_of zs k of
        None \<Rightarrow> map_of ds k
      | Some w \<Rightarrow> Some (case map_of ds k of None \<Rightarrow> w | Some e \<Rightarrow> max e w))"
proof (induction zs arbitrary: ds k)
  case Nil
  then show ?case by simp
next
  case (Cons z zs)
  obtain d w where z: "z = (d, w)" by (cases z)
  from Cons.prems z have dist: "distinct (map fst zs)" and fresh: "map_of zs d = None"
    by (auto simp: map_of_eq_None_iff)
  show ?case
  proof (cases "k = d")
    case True
    with z fresh show ?thesis
      by (simp add: Cons.IH [OF dist] update_conv' split: option.splits)
  next
    case False
    with z show ?thesis
      by (simp add: Cons.IH [OF dist] update_conv' split: option.splits)
  qed
qed

lemma merge_rules_mono:
  "map_of ds k = Some e \<Longrightarrow> \<exists>v. map_of (merge_rules ds zs) k = Some v \<and> e \<le> v"
proof (induction zs arbitrary: ds e)
  case Nil
  then show ?case by simp
next
  case (Cons z zs)
  obtain d w where z: "z = (d, w)" by (cases z)
  let ?ds' = "case map_of ds d of
          Some existing \<Rightarrow> AList.update d (max existing w) ds
        | None \<Rightarrow> AList.update d w ds"
  have "\<exists>e'. map_of ?ds' k = Some e' \<and> e \<le> e'"
    using Cons.prems by (cases "k = d") (auto simp: update_conv' split: option.splits)
  then obtain e' where e': "map_of ?ds' k = Some e'" "e \<le> e'" by blast
  from Cons.IH [OF e'(1)] obtain v where "map_of (merge_rules ?ds' zs) k = Some v" "e' \<le> v"
    by blast
  with e'(2) z show ?case by auto
qed

text \<open>
  The leading-symptom rule for chest pain contributes 35 to \<open>Akuter Herzinfarkt\<close>; merged
  into a classifier score of 40 the entry stays 40, not 75: the merge takes the larger value.
\<close>

theorem merge_rules_additive_counterexample:
  "apply_medical_rules ''Brustschmerzen'' [] ''Erwachsener'' [] =
     Inr [(''Akuter Herzinfarkt'', 35), (''Angina pectoris'', 35), (''Lungenembolie'', 35)] \<and>
   merge_rules [(''Akuter Herzinfarkt'', 40)]
     [(''Akuter Herzinfarkt'', 35), (''Angina pectoris'', 35), (''Lungenembolie'', 35)] =
     [(''Akuter Herzinfarkt'', 40), (''Angina pectoris'', 35), (''Lungenembolie'', 35)] \<and>
   (40 :: real) \<noteq> 40 + 35"
  by code_simp

text \<open>
  C1 (as amended). For every diagnosis name in the rule engine's contribution map, the merge
  into the classifier's map stores the maximum of the existing score and the contribution
  when the name is present, and the contribution when it is absent; names without a
  contribution keep their score, and no existing score is ever lowered. Addition is used only
  inside the rule engine (the leading-symptom table), never in the merge.
\<close>

theorem merge_rules_max:
  assumes "distinct (map fst zusatz_diagnosen)"
  shows "(map_of zusatz_diagnosen k = Some w \<and> map_of scored k = Some e \<longrightarrow>
            map_of (merge_rules scored zusatz_diagnosen) k = Some (max e w)) \<and>
         (map_of zusatz_diagnosen k = Some w \<and> map_of scored k = None \<longrightarrow>
            map_of (merge_rules scored zusatz_diagnosen) k = Some w) \<and>
         (map_of zusatz_diagnosen k = None \<longrightarrow>
            map_of (merge_rules scored zusatz_diagnosen) k = map_of scored k) \<and>
         (map_of scored k = Some e \<longrightarrow>
            (\<exists>v. map_of (merge_rules scored zusatz_diagnosen) k = Some v \<and> e \<le> v))"
  using merge_rules_map_of [OF assms, of scored k] merge_rules_mono [of scored k e zusatz_diagnosen]
  by (auto split: option.splits)

theorem merge_rules_max_witness:
  "map_of (merge_rules [(''Akuter Herzinfarkt'', 40), (''Virusgrippe'', 30)]
             [(''Akuter Herzinfarkt'', 70), (''Angina pectoris'', 35)])
          ''Akuter Herzinfarkt'' = Some 70 \<and>
   (\<exists>v. map_of (merge_rules [(''Akuter Herzinfarkt'', 40), (''Virusgrippe'', 30)]
             [(''Akuter Herzinfarkt'', 70), (''Angina pectoris'', 35)])
           ''Virusgrippe'' = Some v \<and> 30 \<le> v)"
proof -
  have d: "distinct (map fst [(''Akuter Herzinfarkt'', 70 :: real), (''Angina pectoris'', 35)])"
    by simp
  from merge_rules_max [OF d, of "''Akuter Herzinfarkt''" 70
         "[(''Akuter Herzinfarkt'', 40), (''Virusgrippe'', 30)]" 40]
  have a: "map_of (merge_rules [(''Akuter Herzinfarkt'', 40), (''Virusgrippe'', 30)]
             [(''Akuter Herzinfarkt'', 70), (''Angina pectoris'', 35)])
          ''Akuter Herzinfarkt'' = Some 70"
    by simp
  from merge_rules_max [OF d, of "''Virusgrippe''" 0
         "[(''Akuter Herzinfarkt'', 40), (''Virusgrippe'', 30)]" 30]
  have b: "\<exists>v. map_of (merge_rules [(''Akuter Herzinfarkt'', 40), (''Virusgrippe'', 30)]
             [(''Akuter Herzinfarkt'', 70), (''Angina pectoris'', 35)])
           ''Virusgrippe'' = Some v \<and> 30 \<le> v"
    by simp
  from a b show ?thesis by blast
qed

section \<open>Normalising twice\<close>

text \<open>
  Five entries, normalised once, sum to 100.2; the second pass divides by that sum and moves
  the largest entry from 77.8 to 77.6, two rounding steps away.
\<close>

theorem normalize_100_twice_counterexample:
  "0 < sum_list (map snd [(''Pneumonie'', 1.4 :: real), (''Bronchitis'', 0.1), (''Asthma'', 0.1),
                          (''Sinusitis'', 0.1), (''Gastritis'', 0.1)]) \<and>
   normalize_100 [(''Pneumonie'', 1.4), (''Bronchitis'', 0.1), (''Asthma'', 0.1),
                  (''Sinusitis'', 0.1), (''Gastritis'', 0.1)] =
     [(''Pneumonie'', 77.8), (''Bronchitis'', 5.6), (''Asthma'', 5.6),
      (''Sinusitis'', 5.6), (''Gastritis'', 5.6)] \<and>
   normalize_100 (normalize_100 [(''Pneumonie'', 1.4), (''Bronchitis'', 0.1), (''Asthma'', 0.1),
                  (''Sinusitis'', 0.1), (''Gastritis'', 0.1)]) =
     [(''Pneumonie'', 77.6), (''Bronchitis'', 5.6), (''Asthma'', 5.6),
      (''Sinusitis'', 5.6), (''Gastritis'', 5.6)] \<and>
   \<bar>(77.6 :: real) - 77.8\<bar> > 0.1"
  by code_simp

text \<open>
  C9 (as amended). For every non-empty score map with positive total, a second
  normalize-to-100 pass keeps the keys and their order; the first pass's values sum to S
  within 0.05 per entry of 100; when S is exactly 100 (or not positive) the second pass
  changes nothing; otherwise each value v of the first pass moves by at most
  0.05 + |v| * |100 - S| / S. The drift is therefore not bounded by one rounding step: it
  grows with the number of entries.
\<close>

theorem normalize_100_twice:
  assumes "ds \<noteq> []" and "0 < sum_list (map snd ds)"
  shows "map fst (normalize_100 (normalize_100 ds)) = map fst (normalize_100 ds) \<and>
         \<bar>sum_list (map snd (normalize_100 ds)) - 100\<bar> \<le> real (length ds) / 20 \<and>
         (sum_list (map snd (normalize_100 ds)) = 100 \<or> sum_list (map snd (normalize_100 ds)) \<le> 0
            \<longrightarrow> normalize_100 (normalize_100 ds) = normalize_100 ds) \<and>
         (\<forall>i < length ds. 0 < sum_list (map snd (normalize_100 ds)) \<longrightarrow>
            \<bar>snd (normalize_100 (normalize_100 ds) ! i) - snd (normalize_100 ds ! i)\<bar>
              \<le> 1 / 20 + \<bar>snd (normalize_100 ds ! i)\<bar>
                            * \<bar>100 - sum_list (map snd (normalize_100 ds))\<bar>
                            / sum_list (map snd (normalize_100 ds)))"
proof -
  let ?once = "normalize_100 ds"
  let ?S = "sum_list (map snd ?once)"
  have keys: "map fst (normalize_100 ?once) = map fst ?once"
    by (rule normalize_100_keys)
  have sum: "\<bar>?S - 100\<bar> \<le> real (length ds) / 20"
    by (rule normalize_100_sum [OF assms(2)])
  have fixed: "?S = 100 \<or> ?S \<le> 0 \<longrightarrow> normalize_100 ?once = ?once"
  proof
    assume "?S = 100 \<or> ?S \<le> 0"
    then show "normalize_100 ?once = ?once"
    proof
      assume "?S = 100"
      then show ?thesis
        by (rule normalize_100_fixed) (rule normalize_100_tenths [OF assms(2)])
    next
      assume "?S \<le> 0"
      then show ?thesis by (simp add: normalize_100_def [of ?once] Let_def)
    qed
  qed
  have drift: "\<forall>i < length ds. 0 < ?S \<longrightarrow>
            \<bar>snd (normalize_100 ?once ! i) - snd (?once ! i)\<bar>
              \<le> 1 / 20 + \<bar>snd (?once ! i)\<bar> * \<bar>100 - ?S\<bar> / ?S"
  proof (intro allI impI)
    fix i
    assume i: "i < length ds" and S: "0 < ?S"
    define r where "r = snd (?once ! i)"
    define z where "z = r / ?S * 100"
    from i have i': "i < length ?once" by (simp add: length_normalize_100)
    have two: "snd (normalize_100 ?once ! i) = round1 z"
      unfolding z_def r_def by (rule normalize_100_nth [OF S i'])
    have "z - r = r * (100 - ?S) / ?S" using S by (simp add: z_def field_simps)
    then have "\<bar>z - r\<bar> = \<bar>r * (100 - ?S) / ?S\<bar>" by (simp only:)
    also have "\<dots> = \<bar>r\<bar> * \<bar>100 - ?S\<bar> / ?S" using S by (simp add: abs_mult)
    finally have zr: "\<bar>z - r\<bar> = \<bar>r\<bar> * \<bar>100 - ?S\<bar> / ?S" .
    have "\<bar>round1 z - r\<bar> \<le> \<bar>round1 z - z\<bar> + \<bar>z - r\<bar>" by linarith
    also have "\<dots> \<le> 1 / 20 + \<bar>r\<bar> * \<bar>100 - ?S\<bar> / ?S"
      unfolding zr using round1_err [of z] by simp
    finally show "\<bar>snd (normalize_100 ?once ! i) - snd (?once ! i)\<bar>
              \<le> 1 / 20 + \<bar>snd (?once ! i)\<bar> * \<bar>100 - ?S\<bar> / ?S"
      unfolding two r_def .
  qed
  from keys sum fixed drift show ?thesis by blast
qed

theorem normalize_100_twice_witness:
  "normalize_100 (normalize_100 [(''Pneumonie'', 1), (''Bronchitis'', 3)]) =
     normalize_100 [(''Pneumonie'', 1), (''Bronchitis'', 3)] \<and>
   \<bar>snd (normalize_100 (normalize_100 [(''Pneumonie'', 1.4), (''Bronchitis'', 0.1),
          (''Asthma'', 0.1), (''Sinusitis'', 0.1), (''Gastritis'', 0.1)]) ! 0) -
     snd (normalize_100 [(''Pneumonie'', 1.4), (''Bronchitis'', 0.1),
          (''Asthma'', 0.1), (''Sinusitis'', 0.1), (''Gastritis'', 0.1)] ! 0)\<bar>
     \<le> 1 / 20 + 778 / 10 * (2 / 10) / (1002 / 10)"
proof -
  have a: "[(''Pneumonie'', 1 :: real), (''Bronchitis'', 3)] \<noteq> []"
          "0 < sum_list (map snd [(''Pneumonie'', 1 :: real), (''Bronchitis'', 3)])"
    by simp_all
  have s: "sum_list (map snd (normalize_100 [(''Pneumonie'', 1), (''Bronchitis'', 3)])) = 100"
    by code_simp
  have b: "[(''Pneumonie'', 1.4 :: real), (''Bronchitis'', 0.1),
          (''Asthma'', 0.1), (''Sinusitis'', 0.1), (''Gastritis'', 0.1)] \<noteq> []"
          "0 < sum_list (map snd [(''Pneumonie'', 1.4 :: real), (''Bronchitis'', 0.1),
          (''Asthma'', 0.1), (''Sinusitis'', 0.1), (''Gastritis'', 0.1)])"
    by simp_all
  have n: "normalize_100 [(''Pneumonie'', 1.4), (''Bronchitis'', 0.1), (''Asthma'', 0.1),
                  (''Sinusitis'', 0.1), (''Gastritis'', 0.1)] =
     [(''Pneumonie'', 77.8), (''Bronchitis'', 5.6), (''Asthma'', 5.6),
      (''Sinusitis'', 5.6), (''Gastritis'', 5.6)]"
    by code_simp
  from normalize_100_twice [OF a] s
  have one: "normalize_100 (normalize_100 [(''Pneumonie'', 1), (''Bronchitis'', 3)]) =
     normalize_100 [(''Pneumonie'', 1), (''Bronchitis'', 3)]" by simp
  from normalize_100_twice [OF b]
  have "0 < sum_list (map snd (normalize_100 [(''Pneumonie'', 1.4), (''Bronchitis'', 0.1),
          (''Asthma'', 0.1), (''Sinusitis'', 0.1), (''Gastritis'', 0.1)])) \<longrightarrow>
    \<bar>snd (normalize_100 (normalize_100 [(''Pneumonie'', 1.4), (''Bronchitis'', 0.1),
          (''Asthma'', 0.1), (''Sinusitis'', 0.1), (''Gastritis'', 0.1)]) ! 0) -
     snd (normalize_100 [(''Pneumonie'', 1.4), (''Bronchitis'', 0.1),
          (''Asthma'', 0.1), (''Sinusitis'', 0.1), (''Gastritis'', 0.1)] ! 0)\<bar>
     \<le> 1 / 20 + \<bar>snd (normalize_100 [(''Pneumonie'', 1.4), (''Bronchitis'', 0.1),
          (''Asthma'', 0.1), (''Sinusitis'', 0.1), (''Gastritis'', 0.1)] ! 0)\<bar>
        * \<bar>100 - sum_list (map snd (normalize_100 [(''Pneumonie'', 1.4), (''Bronchitis'', 0.1),
          (''Asthma'', 0.1), (''Sinusitis'', 0.1), (''Gastritis'', 0.1)]))\<bar>
        / sum_list (map snd (normalize_100 [(''Pneumonie'', 1.4), (''Bronchitis'', 0.1),
          (''Asthma'', 0.1), (''Sinusitis'', 0.1), (''Gastritis'', 0.1)]))"
    by simp
  then have two: "\<bar>snd (normalize_100 (normalize_100 [(''Pneumonie'', 1.4), (''Bronchitis'', 0.1),
          (''Asthma'', 0.1), (''Sinusitis'', 0.1), (''Gastritis'', 0.1)]) ! 0) -
     snd (normalize_100 [(''Pneumonie'', 1.4), (''Bronchitis'', 0.1),
          (''Asthma'', 0.1), (''Sinusitis'', 0.1), (''Gastritis'', 0.1)] ! 0)\<bar>
     \<le> 1 / 20 + 778 / 10 * (2 / 10) / (1002 / 10)"
    unfolding n by simp
  from one two show ?thesis by blast
qed

section \<open>The final step: normalisation invariant and confidence tier\<close>

text \<open>
  A fever case whose narrative advisor proposes two further diagnoses with small
  probabilities reaches the final step with the scores 100, 2.03 and 1.4. Normalised they
  are 96.7, 2.0 and 1.4; the last is dropped. The returned map sums to 98.7, and its second
  entry is exactly 2.0, which line 722 (\<open>v >= 2.0\<close>) keeps.
\<close>

theorem finalize_invariant_counterexample:
  "returned_scores (diagnose demo_env ''Fieber'' [] ''Erwachsener'' []) =
     [(''Virusgrippe'', 96.7), (''Gastritis'', 2)] \<and>
   final_scores [(''Virusgrippe'', 100), (''Gastritis'', 2.03), (''Sinusitis'', 1.4)] =
     [(''Virusgrippe'', 96.7), (''Gastritis'', 2)] \<and>
   \<bar>(96.7 + 2) - 100\<bar> > (0.1 :: real) \<and> \<not> (2 :: real) > 2"
  by code_simp

text \<open>
  C2 (as amended). For every input whose pipeline reaches the final step with non-negative
  scores and returns a non-empty map, every returned value is at least 2.0 (a value of
  exactly 2.0 is kept), and the returned values sum to at most 100 + 0.05 n and to at least
  100 - 0.05 n - 2 d, where n is the number of entries before the drop and d the number of
  dropped entries: rounding moves the sum by up to 0.05 per entry, and what is dropped is
  missing from it.
\<close>

theorem finalize_invariant:
  assumes "\<forall>(k, v) \<in> set (diagnosen er). 0 \<le> v"
    and "diagnosen (finalize llm_results er) \<noteq> []"
  shows "(\<forall>(k, v) \<in> set (diagnosen (finalize llm_results er)). 2 \<le> v) \<and>
         sum_list (map snd (diagnosen (finalize llm_results er)))
           \<le> 100 + real (length (diagnosen er)) / 20 \<and>
         100 - real (length (diagnosen er)) / 20
             - 2 * real (length (diagnosen er) - length (diagnosen (finalize llm_results er)))
           \<le> sum_list (map snd (diagnosen (finalize llm_results er)))"
proof -
  have nn: "\<And>x. x \<in> set (diagnosen er) \<Longrightarrow> 0 \<le> snd x"
    using assms(1) by auto
  from assms(2) have ne: "final_scores (diagnosen er) \<noteq> []"
    by (simp add: diagnosen_finalize)
  have pos: "0 < sum_list (map snd (diagnosen er))"
    by (rule final_scores_nonempty_pos [OF nn ne])
  have "\<forall>(k, v) \<in> set (final_scores (diagnosen er)). 2 \<le> v"
    using final_scores_ge2 [of _ "diagnosen er"] by auto
  with final_scores_sum [OF nn pos] show ?thesis
    by (simp add: diagnosen_finalize)
qed

theorem finalize_invariant_witness:
  "list_all (\<lambda>(k, v). 2 \<le> v) [(''Virusgrippe'', 96.7 :: real), (''Gastritis'', 2)] \<and>
   sum_list (map snd [(''Virusgrippe'', 96.7 :: real), (''Gastritis'', 2)]) \<le> 100 + 3 / 20 \<and>
   100 - 3 / 20 - 2 * 1 \<le> sum_list (map snd [(''Virusgrippe'', 96.7 :: real), (''Gastritis'', 2)])"
proof -
  define er :: ml_result where
    "er = \<lparr>diagnosen = [(''Virusgrippe'', 100), (''Gastritis'', 2.03), (''Sinusitis'', 1.4)],
           behandlung = [], abrechnungscode = [], nicht_erkannt = None, vitals_of = [],
           vital_warnings = [], top_diagnose = None, alter_of = ''Erwachsener'',
           diagnose_konfidenz = None\<rparr>"
  have d: "diagnosen er = [(''Virusgrippe'', 100), (''Gastritis'', 2.03), (''Sinusitis'', 1.4)]"
    by (simp add: er_def)
  have f: "final_scores [(''Virusgrippe'', 100), (''Gastritis'', 2.03), (''Sinusitis'', 1.4)] =
     [(''Virusgrippe'', 96.7), (''Gastritis'', 2)]"
    by code_simp
  have a: "\<forall>(k, v) \<in> set (diagnosen er). 0 \<le> v" by (simp add: d)
  have b: "diagnosen (finalize no_llm_results er) \<noteq> []"
    unfolding diagnosen_finalize d f by simp
  from finalize_invariant [OF a b] show ?thesis
    unfolding diagnosen_finalize d f by simp
qed

lemma finalize_tier_rule:
  assumes "diagnosen (finalize llm_results er) \<noteq> []"
  shows "diagnose_konfidenz (finalize llm_results er) =
           Some (if to_double (snd (hd (diagnosen (finalize llm_results er)))) > 40 \<and>
                    (tl (diagnosen (finalize llm_results er)) = [] \<or>
                     float_sub (snd (hd (diagnosen (finalize llm_results er))))
                       (snd (hd (tl (diagnosen (finalize llm_results er))))) > 15)
                 then Hoch else Mittel) \<and>
         (\<forall>(k, v) \<in> set (diagnosen (finalize llm_results er)).
            v \<le> snd (hd (diagnosen (finalize llm_results er)))) \<and>
         (\<forall>(k, v) \<in> set (tl (tl (diagnosen (finalize llm_results er)))).
            v \<le> snd (hd (tl (diagnosen (finalize llm_results er)))))"
proof -
  let ?ds = "final_scores (diagnosen er)"
  from assms have ne: "?ds \<noteq> []" by (simp add: diagnosen_finalize)
  then obtain x xs where ds: "?ds = x # xs" by (cases ?ds) auto
  have srt: "sorted (map (\<lambda>x. - snd x) (x # xs))"
    using final_scores_sorted [of "diagnosen er"] ds by simp
  have sd: "sort_desc ?ds = ?ds" by (rule sort_desc_final_scores)
  have tier: "diagnose_konfidenz (finalize llm_results er) = Some (confidence_tier ?ds)"
    using ne by (simp add: finalize_def Let_def sd)
  have ct: "confidence_tier (x # xs) =
              (if to_double (snd x) > 40 \<and> (xs = [] \<or> float_sub (snd x) (snd (hd xs)) > 15)
               then Hoch else Mittel)"
    by (cases xs) (auto simp: confidence_tier_def Let_def)
  have top: "\<forall>(k, v) \<in> set (x # xs). v \<le> snd x"
    using srt by auto
  have second: "\<forall>(k, v) \<in> set (tl xs). v \<le> snd (hd xs)"
    using srt by (cases xs) auto
  from tier ct top second show ?thesis
    by (simp add: diagnosen_finalize ds)
qed

lemma finalize_empty:
  assumes "diagnosen (finalize llm_results er) = []"
  shows "diagnose_konfidenz (finalize llm_results er) = diagnose_konfidenz er"
  using assms by (simp add: finalize_def Let_def split: if_splits)

section \<open>The hybrid diagnosis: failure handling and the confidence tier\<close>

lemma split_acc_no_sep: "d \<notin> set s \<Longrightarrow> split_acc d cur s = [rev cur @ s]"
  by (induction s arbitrary: cur) auto

lemma split_on_no_sep: "d \<notin> set s \<Longrightarrow> split_on d s = [s]"
  by (simp add: split_on_def split_acc_no_sep)

lemma strip_blank:
  assumes "\<forall>c \<in> set s. is_space c"
  shows "strip s = []"
proof -
  have d: "dropWhile is_space s = []" using assms by (induction s) auto
  show ?thesis unfolding strip_def d by simp
qed

lemma eingabe_liste_blank:
  assumes "\<forall>c \<in> set s. is_space c"
  shows "eingabe_liste s = [[]]"
proof -
  have "\<not> is_space CHR '',''" by (simp add: is_space_def)
  with assms have "CHR '','' \<notin> set s" by auto
  then have "split_on CHR '','' s = [s]" by (rule split_on_no_sep)
  with strip_blank [OF assms] show ?thesis by (simp add: eingabe_liste_def)
qed

lemma symptome_abgleichen_blank:
  "\<forall>c \<in> set s. is_space c \<Longrightarrow> symptome_abgleichen s db = ([], [])"
  by (simp add: symptome_abgleichen_def eingabe_liste_blank)

lemma patient_verarbeiten_blank:
  "\<forall>c \<in> set s. is_space c \<Longrightarrow>
   patient_verarbeiten db predict s vitals_string alter zusatz_info =
     Inr (Fehler (FehlerText (''Keine g'' @ uml_ue @ ''ltigen Symptome erkannt'')) [])"
  by (simp add: patient_verarbeiten_def symptome_abgleichen_blank diagnostizieren_def)

text \<open>
  C5. For symptom input that is empty or consists of white space only, the pipeline returns
  the structured error result "Keine gueltigen Symptome erkannt" (a value, not an exception),
  with an empty unmatched list and the source tag \<open>ml_model\<close>, and it invokes neither the
  case-similarity lookup nor the narrative advisor.
\<close>

theorem diagnose_blank_input:
  assumes "\<forall>c \<in> set symptome. is_space c"
  shows "diagnose env symptome vitals_string alter zusatz_info =
           Inr \<lparr>result = Fehler (FehlerText (''Keine g'' @ uml_ue @ ''ltigen Symptome erkannt'')) [],
                source = ml_model, calls = []\<rparr>"
  by (simp add: diagnose_def patient_verarbeiten_blank [OF assms])

theorem diagnose_blank_input_witness:
  "diagnose demo_env ''   '' ''HR:80'' ''Erwachsener'' [] =
     Inr \<lparr>result = Fehler (FehlerText (''Keine g'' @ uml_ue @ ''ltigen Symptome erkannt'')) [],
          source = ml_model, calls = []\<rparr> \<and>
   diagnose demo_env [] [] ''Erwachsener'' [] =
     Inr \<lparr>result = Fehler (FehlerText (''Keine g'' @ uml_ue @ ''ltigen Symptome erkannt'')) [],
          source = ml_model, calls = []\<rparr>"
proof -
  have a: "\<forall>c \<in> set ''   ''. is_space c" by (simp add: is_space_def)
  have b: "\<forall>c \<in> set []. is_space c" by simp
  from diagnose_blank_input [OF a] diagnose_blank_input [OF b] show ?thesis by blast
qed

lemma enhance_without_collaborators:
  "\<exists>enhanced. enhance_ml_results ml_results no_llm_results [] symptome vitals_string alter zusatz_info
      = Inr enhanced"
  by (simp add: enhance_ml_results_def Let_def llm_merge_def mimic_merge_def no_llm_results_def
           split: option.splits)

text \<open>
  What the pipeline does when both optional stages fail: if the classifier pipeline gives a
  result, the similarity stage raises or returns no case, and no narrative provider is
  configured or its stage raises or returns an error, the outcome is the fusion of the
  classifier result with an empty narrative answer and no similar case, which always
  succeeds. The source tag follows the configuration: \<open>ml_model\<close> without a provider,
  \<open>ml_llm\<close> with one.
\<close>

theorem diagnose_degraded:
  assumes ml: "patient_verarbeiten (symptom_db_of env) (predict_proba env)
                 symptome vitals_string alter zusatz_info = Inr (Ergebnis ml_results)"
    and mimic: "mimic_stage env symptome vitals_string alter zusatz_info = MimicRaised \<or>
                mimic_stage env symptome vitals_string alter zusatz_info = MimicCases []"
    and llm: "\<not> provider env \<or>
              llm_stage env symptome vitals_string alter zusatz_info
                \<in> {LlmRaised, LlmErrorDict, LlmParseError}"
  shows "\<exists>enhanced.
           enhance_ml_results ml_results no_llm_results [] symptome vitals_string alter zusatz_info
             = Inr enhanced \<and>
           diagnose env symptome vitals_string alter zusatz_info =
             Inr \<lparr>result = Ergebnis enhanced,
                  source = (if provider env then ml_llm else ml_model),
                  calls = MimicLookup # (if provider env then [LlmCall] else [])\<rparr> \<and>
           (if provider env then ml_llm else ml_model) \<noteq> hybrid"
proof -
  obtain enhanced where e: "enhance_ml_results ml_results no_llm_results [] symptome
      vitals_string alter zusatz_info = Inr enhanced"
    using enhance_without_collaborators by blast
  have m: "(case mimic_stage env symptome vitals_string alter zusatz_info of
              MimicRaised \<Rightarrow> [] | MimicCases cs \<Rightarrow> cs) = []"
    using mimic by auto
  have l: "(if provider env
            then (case llm_stage env symptome vitals_string alter zusatz_info of
                    LlmParsed r \<Rightarrow> r | _ \<Rightarrow> no_llm_results)
            else no_llm_results) = no_llm_results"
    using llm by auto
  have "diagnose env symptome vitals_string alter zusatz_info =
             Inr \<lparr>result = Ergebnis enhanced,
                  source = (if provider env then ml_llm else ml_model),
                  calls = MimicLookup # (if provider env then [LlmCall] else [])\<rparr>"
    unfolding diagnose_def ml by (simp add: Let_def m l e)
  with e show ?thesis by auto
qed

theorem diagnose_degraded_witness:
  "\<exists>enhanced.
     diagnose failing_env ''Brustschmerzen, Kurzatmigkeit'' ''HR:110,T:36.7'' ''Erwachsener'' [] =
       Inr \<lparr>result = Ergebnis enhanced, source = ml_llm, calls = [MimicLookup, LlmCall]\<rparr>"
proof -
  have "case patient_verarbeiten demo_db demo_predict
               ''Brustschmerzen, Kurzatmigkeit'' ''HR:110,T:36.7'' ''Erwachsener'' [] of
          Inr (Ergebnis m) \<Rightarrow> True | _ \<Rightarrow> False"
    by code_simp
  then obtain m where "patient_verarbeiten demo_db demo_predict
               ''Brustschmerzen, Kurzatmigkeit'' ''HR:110,T:36.7'' ''Erwachsener'' [] =
          Inr (Ergebnis m)"
    by (auto split: sum.splits outcome.splits)
  then have ml: "patient_verarbeiten (symptom_db_of failing_env) (predict_proba failing_env)
               ''Brustschmerzen, Kurzatmigkeit'' ''HR:110,T:36.7'' ''Erwachsener'' [] =
          Inr (Ergebnis m)"
    by (simp add: failing_env_def)
  have mimic: "mimic_stage failing_env ''Brustschmerzen, Kurzatmigkeit'' ''HR:110,T:36.7''
                 ''Erwachsener'' [] = MimicRaised \<or>
               mimic_stage failing_env ''Brustschmerzen, Kurzatmigkeit'' ''HR:110,T:36.7''
                 ''Erwachsener'' [] = MimicCases []"
    by (simp add: failing_env_def)
  have llm: "\<not> provider failing_env \<or>
             llm_stage failing_env ''Brustschmerzen, Kurzatmigkeit'' ''HR:110,T:36.7''
               ''Erwachsener'' [] \<in> {LlmRaised, LlmErrorDict, LlmParseError}"
    by (simp add: failing_env_def)
  have p: "provider failing_env" by (simp add: failing_env_def)
  from diagnose_degraded [OF ml mimic llm] p show ?thesis by auto
qed

lemma konfidenz_double_and_top:
  "diagnose_konfidenz (double_and_top d er) = diagnose_konfidenz er"
  by (simp add: double_and_top_def split: option.splits)

lemma konfidenz_konstellation_boost:
  "diagnose_konfidenz (konstellation_boost st er) = diagnose_konfidenz er"
  by (simp add: konstellation_boost_def Let_def konfidenz_double_and_top)

lemma konfidenz_allergy_override:
  "diagnose_konfidenz (allergy_override st er) = diagnose_konfidenz er"
  by (simp add: allergy_override_def)

lemma konfidenz_uti_override:
  "diagnose_konfidenz (uti_override st vs er) = diagnose_konfidenz er"
  by (simp add: uti_override_def Let_def)

lemma konfidenz_stroke_override:
  "diagnose_konfidenz (stroke_override v er) = diagnose_konfidenz er"
  by (simp add: stroke_override_def)

lemma konfidenz_critical_fold:
  "diagnose_konfidenz
     (fold (\<lambda>(pattern, target_diagnosis, factor) er.
             if list_all (\<lambda>symptom. is_sub symptom st) pattern
             then (case map_of (diagnosen er) target_diagnosis of
                     None \<Rightarrow> er
                   | Some v \<Rightarrow>
                       let er = er\<lparr>diagnosen := AList.update target_diagnosis (v * factor) (diagnosen er)\<rparr>
                       in if v * factor > 50 then er\<lparr>top_diagnose := Some target_diagnosis\<rparr> else er)
             else er) ps er) = diagnose_konfidenz er"
proof (induction ps arbitrary: er)
  case Nil
  then show ?case by simp
next
  case (Cons p ps)
  obtain pattern target factor where p: "p = (pattern, target, factor)" by (cases p)
  show ?case by (simp add: p Cons.IH Let_def split: option.splits)
qed

lemma konfidenz_critical_pattern_boost:
  "diagnose_konfidenz (critical_pattern_boost st er) = diagnose_konfidenz er"
  unfolding critical_pattern_boost_def by (rule konfidenz_critical_fold)

lemma confidence_tier_cases: "confidence_tier ds = Hoch \<or> confidence_tier ds = Mittel"
  by (simp add: confidence_tier_def Let_def)


lemma konfidenz_finalize_nonempty:
  "diagnosen (finalize llm_results er) \<noteq> [] \<Longrightarrow>
   diagnose_konfidenz (finalize llm_results er) = Some Mittel \<or>
   diagnose_konfidenz (finalize llm_results er) = Some Hoch"
  using confidence_tier_cases [of "sort_desc (final_scores (diagnosen er))"]
  by (auto simp: finalize_def Let_def)





text \<open>
  C4. A heart rate that is not a number is dropped without a warning by check\_vitals and
  skipped by adjust\_diagnosis\_with\_vitals, but the adult chest-pain rule (core.py line 373)
  converts it outside any \<open>try\<close>: for chest pain with shortness of breath the
  \<open>ValueError\<close> leaves apply\_medical\_rules, patient\_verarbeiten and diagnose.
\<close>

theorem malformed_heart_rate_raises:
  "parse_vitals ''HR:abc'' = [(''HR'', ''abc'')] \<and> py_int ''abc'' = None \<and>
   check_vitals (parse_vitals ''HR:abc'') ''Erwachsener'' = [] \<and>
   adjust_diagnosis_with_vitals [(''Akuter Herzinfarkt'', 50)] (parse_vitals ''HR:abc'')
     ''Erwachsener'' = [(''Akuter Herzinfarkt'', 100)] \<and>
   apply_medical_rules ''Brustschmerzen, Kurzatmigkeit'' (parse_vitals ''HR:abc'')
     ''Erwachsener'' [] = Inl ValueError \<and>
   patient_verarbeiten demo_db demo_predict ''Brustschmerzen, Kurzatmigkeit'' ''HR:abc''
     ''Erwachsener'' [] = Inl ValueError \<and>
   diagnose demo_env ''Brustschmerzen, Kurzatmigkeit'' ''HR:abc'' ''Erwachsener'' []
     = Inl ValueError"
  by code_simp

section \<open>The confidence tier on every return of the fusion, and the source tag\<close>

text \<open>
  Two final maps on which the stated rule fails. A fever with dysuria takes the urinary
  special case: the returned map has a top score of 60 that leads by 25, and no tier is
  attached. And the map 40.2, 25.2, 17.3, 17.3 passes the final step unchanged: its lead is
  15 in decimal, not more, yet the doubles for 40.2 and 25.2 differ by 15 + 2^-48, so line 737
  attaches "hoch".
\<close>

theorem confidence_tier_counterexample:
  "returned_scores (diagnose demo_env ''Fieber, Dysurie'' [] ''Erwachsener'' []) =
     [(''Harnwegsinfektion'', 60), (''Zystitis'', 35), (''Urethritis'', 5)] \<and>
   (60 :: real) > 40 \<and> (60 :: real) - 35 > 15 \<and>
   returned_konfidenz (diagnose demo_env ''Fieber, Dysurie'' [] ''Erwachsener'' []) = None \<and>
   diagnosen (finalize no_llm_results (ml_result_with
       [(''Virusgrippe'', 40.2), (''Bronchitis'', 25.2), (''Sinusitis'', 17.3),
        (''Gastritis'', 17.3)])) =
     [(''Virusgrippe'', 40.2), (''Bronchitis'', 25.2), (''Sinusitis'', 17.3),
      (''Gastritis'', 17.3)] \<and>
   \<not> (40.2 :: real) - 25.2 > 15 \<and>
   diagnose_konfidenz (finalize no_llm_results (ml_result_with
       [(''Virusgrippe'', 40.2), (''Bronchitis'', 25.2), (''Sinusitis'', 17.3),
        (''Gastritis'', 17.3)])) = Some Hoch"
  by code_simp

text \<open>
  C7 (as amended). For every map that the fusion returns: when the allergy, the urinary or
  the stroke special case returns early, no tier is set (the classifier result's absent tier
  stays). Otherwise the map is the sorted output of the final step; if it is non-empty the
  tier is "hoch" (high) exactly when the top score, as a double, exceeds 40 and either there
  is no runner-up or the double-precision difference of top score and runner-up, as the code
  computes it, exceeds 15, and "mittel" (medium) in every other case; if it is empty no tier
  is set. The first entry of the map is its largest score and the second its runner-up.
\<close>

theorem enhance_confidence_tier:
  assumes "enhance_ml_results ml_results llm_results mimic_results
             symptome vitals_string alter zusatz_info = Inr enhanced"
    and "symptom_text = lower symptome @ '' '' @ lower zusatz_info"
  shows "if is_allergy_case symptom_text \<or> is_uti_case symptom_text \<or>
            (is_stroke_case symptom_text \<and>
             map_of (diagnosen (konstellation_boost symptom_text ml_results))
               (''Schlaganfall'') \<noteq> None)
         then diagnose_konfidenz enhanced = diagnose_konfidenz ml_results
         else (diagnosen enhanced = [] \<and>
               diagnose_konfidenz enhanced = diagnose_konfidenz ml_results) \<or>
              (diagnosen enhanced \<noteq> [] \<and>
               diagnose_konfidenz enhanced =
                 Some (if to_double (snd (hd (diagnosen enhanced))) > 40 \<and>
                          (tl (diagnosen enhanced) = [] \<or>
                           float_sub (snd (hd (diagnosen enhanced)))
                             (snd (hd (tl (diagnosen enhanced)))) > 15)
                       then Hoch else Mittel) \<and>
               (\<forall>(k, v) \<in> set (diagnosen enhanced). v \<le> snd (hd (diagnosen enhanced))) \<and>
               (\<forall>(k, v) \<in> set (tl (tl (diagnosen enhanced))).
                  v \<le> snd (hd (tl (diagnosen enhanced)))))"
proof -
  define er where "er = konstellation_boost symptom_text ml_results"
  have k: "diagnose_konfidenz er = diagnose_konfidenz ml_results"
    by (simp add: er_def konfidenz_konstellation_boost)
  note unf = enhance_ml_results_def Let_def assms(2) [symmetric] er_def [symmetric]
  show ?thesis
  proof (cases "is_allergy_case symptom_text")
    case True
    with assms(1) have "enhanced = allergy_override symptom_text er"
      unfolding unf by simp
    with True k show ?thesis by (simp add: konfidenz_allergy_override)
  next
    case na: False
    show ?thesis
    proof (cases "is_uti_case symptom_text")
      case True
      with na assms(1) have "enhanced = uti_override symptom_text vitals_string er"
        unfolding unf by simp
      with True k show ?thesis by (simp add: konfidenz_uti_override)
    next
      case nu: False
      show ?thesis
      proof (cases "is_stroke_case symptom_text \<and> map_of (diagnosen er) ''Schlaganfall'' \<noteq> None")
        case True
        then obtain v where v: "map_of (diagnosen er) ''Schlaganfall'' = Some v" by auto
        with True na nu assms(1) have "enhanced = stroke_override v er"
          unfolding unf by simp
        with True k show ?thesis
          unfolding er_def [symmetric] by (simp add: konfidenz_stroke_override)
      next
        case ns: False
        then have none: "(if is_stroke_case symptom_text
                          then map_of (diagnosen er) ''Schlaganfall'' else None) = None"
          by auto
        from na nu assms(1) obtain ds where
          e: "enhanced = finalize llm_results
                (critical_pattern_boost symptom_text (er\<lparr>diagnosen := age_gate alter ds\<rparr>))"
          unfolding unf none by (auto split: sum.splits)
        define pre where
          "pre = critical_pattern_boost symptom_text (er\<lparr>diagnosen := age_gate alter ds\<rparr>)"
        have kp: "diagnose_konfidenz pre = diagnose_konfidenz ml_results"
          by (simp add: pre_def konfidenz_critical_pattern_boost k)
        have e': "enhanced = finalize llm_results pre" using e by (simp add: pre_def)
        have general: "(diagnosen enhanced = [] \<and>
               diagnose_konfidenz enhanced = diagnose_konfidenz ml_results) \<or>
              (diagnosen enhanced \<noteq> [] \<and>
               diagnose_konfidenz enhanced =
                 Some (if to_double (snd (hd (diagnosen enhanced))) > 40 \<and>
                          (tl (diagnosen enhanced) = [] \<or>
                           float_sub (snd (hd (diagnosen enhanced)))
                             (snd (hd (tl (diagnosen enhanced)))) > 15)
                       then Hoch else Mittel) \<and>
               (\<forall>(k, v) \<in> set (diagnosen enhanced). v \<le> snd (hd (diagnosen enhanced))) \<and>
               (\<forall>(k, v) \<in> set (tl (tl (diagnosen enhanced))).
                  v \<le> snd (hd (tl (diagnosen enhanced)))))"
        proof (cases "diagnosen enhanced = []")
          case True
          with finalize_empty [of llm_results pre] kp e' show ?thesis by simp
        next
          case False
          then have "diagnosen (finalize llm_results pre) \<noteq> []" by (simp add: e')
          from finalize_tier_rule [OF this] False show ?thesis
            unfolding e' [symmetric] by blast
        qed
        from ns na nu have cond: "\<not> (is_allergy_case symptom_text \<or> is_uti_case symptom_text \<or>
            (is_stroke_case symptom_text \<and> map_of (diagnosen er) ''Schlaganfall'' \<noteq> None))"
          by blast
        show ?thesis
          unfolding er_def [symmetric] by (subst if_not_P [OF cond]) (rule general)
      qed
    qed
  qed
qed

theorem enhance_confidence_tier_witness:
  "(\<exists>e. enhance_ml_results
           (ml_result_with [(''Virusgrippe'', 40.2), (''Bronchitis'', 25.2),
                            (''Sinusitis'', 17.3), (''Gastritis'', 17.3)])
           no_llm_results [] ''Fieber'' [] ''Erwachsener'' [] = Inr e \<and>
         diagnose_konfidenz e = Some Hoch) \<and>
   (\<exists>e. enhance_ml_results
           (ml_result_with [(''Angina pectoris'', 45), (''Akuter Herzinfarkt'', 55)])
           no_llm_results [] ''Fieber'' [] ''Erwachsener'' [] = Inr e \<and>
         diagnose_konfidenz e = Some Mittel) \<and>
   (\<exists>e. enhance_ml_results
           (ml_result_with [(''Virusgrippe'', 100)])
           no_llm_results [] ''Fieber, Dysurie'' [] ''Erwachsener'' [] = Inr e \<and>
         diagnose_konfidenz e = None)"
proof -
  let ?m1 = "ml_result_with [(''Virusgrippe'', 40.2), (''Bronchitis'', 25.2),
                            (''Sinusitis'', 17.3), (''Gastritis'', 17.3)]"
  let ?m2 = "ml_result_with [(''Angina pectoris'', 45), (''Akuter Herzinfarkt'', 55)]"
  let ?m3 = "ml_result_with [(''Virusgrippe'', 100)]"
  let ?L1 = "[(''Virusgrippe'', 40.2 :: real), (''Bronchitis'', 25.2),
              (''Sinusitis'', 17.3), (''Gastritis'', 17.3)]"
  let ?L2 = "[(''Akuter Herzinfarkt'', 55 :: real), (''Angina pectoris'', 45)]"
  have plain: "\<not> (is_allergy_case (lower ''Fieber'' @ '' '' @ lower []) \<or>
                   is_uti_case (lower ''Fieber'' @ '' '' @ lower []) \<or>
                   is_stroke_case (lower ''Fieber'' @ '' '' @ lower []))"
    by code_simp
  have uti: "is_uti_case (lower ''Fieber, Dysurie'' @ '' '' @ lower [])"
    by code_simp
  have "case enhance_ml_results ?m1 no_llm_results [] ''Fieber'' [] ''Erwachsener'' [] of
          Inr e \<Rightarrow> diagnosen e = ?L1 | Inl x \<Rightarrow> False"
    by code_simp
  then obtain e1 where e1: "enhance_ml_results ?m1 no_llm_results [] ''Fieber'' []
      ''Erwachsener'' [] = Inr e1" "diagnosen e1 = ?L1"
    by (auto split: sum.splits)
  have "case enhance_ml_results ?m2 no_llm_results [] ''Fieber'' [] ''Erwachsener'' [] of
          Inr e \<Rightarrow> diagnosen e = ?L2 | Inl x \<Rightarrow> False"
    by code_simp
  then obtain e2 where e2: "enhance_ml_results ?m2 no_llm_results [] ''Fieber'' []
      ''Erwachsener'' [] = Inr e2" "diagnosen e2 = ?L2"
    by (auto split: sum.splits)
  have "case enhance_ml_results ?m3 no_llm_results [] ''Fieber, Dysurie'' [] ''Erwachsener'' [] of
          Inr e \<Rightarrow> True | Inl x \<Rightarrow> False"
    by code_simp
  then obtain e3 where e3: "enhance_ml_results ?m3 no_llm_results [] ''Fieber, Dysurie'' []
      ''Erwachsener'' [] = Inr e3"
    by (auto split: sum.splits)
  have t1: "(if to_double (snd (hd ?L1)) > 40 \<and>
                (tl ?L1 = [] \<or> float_sub (snd (hd ?L1)) (snd (hd (tl ?L1))) > 15)
             then Hoch else Mittel) = Hoch"
    by code_simp
  have t2: "(if to_double (snd (hd ?L2)) > 40 \<and>
                (tl ?L2 = [] \<or> float_sub (snd (hd ?L2)) (snd (hd (tl ?L2))) > 15)
             then Hoch else Mittel) = Mittel"
    by code_simp
  from enhance_confidence_tier [OF e1(1) refl] plain
  have "diagnose_konfidenz e1 =
          Some (if to_double (snd (hd (diagnosen e1))) > 40 \<and>
                   (tl (diagnosen e1) = [] \<or>
                    float_sub (snd (hd (diagnosen e1))) (snd (hd (tl (diagnosen e1)))) > 15)
                then Hoch else Mittel)"
    using e1(2) by auto
  then have k1: "diagnose_konfidenz e1 = Some Hoch" unfolding e1(2) t1 .
  from enhance_confidence_tier [OF e2(1) refl] plain
  have "diagnose_konfidenz e2 =
          Some (if to_double (snd (hd (diagnosen e2))) > 40 \<and>
                   (tl (diagnosen e2) = [] \<or>
                    float_sub (snd (hd (diagnosen e2))) (snd (hd (tl (diagnosen e2)))) > 15)
                then Hoch else Mittel)"
    using e2(2) by auto
  then have k2: "diagnose_konfidenz e2 = Some Mittel" unfolding e2(2) t2 .
  from enhance_confidence_tier [OF e3 refl] uti
  have k3: "diagnose_konfidenz e3 = None" by (simp add: ml_result_with_def)
  from e1(1) k1 e2(1) k2 e3 k3 show ?thesis by blast
qed

text \<open>
  C6. With a narrative provider configured whose call fails and a failing similarity lookup,
  the pipeline returns the classifier's result alone, as it does without a provider; but the
  source tag is \<open>ml_llm\<close>, the tag of a run whose advisor did answer, not \<open>ml_model\<close>: lines
  863--869 test whether a provider is configured, not whether the advisor contributed, while
  for the similarity stage they test the cases returned.
\<close>

theorem degraded_source_tag:
  "returned_source (diagnose failing_env ''Fieber'' [] ''Erwachsener'' []) = Some ml_llm \<and>
   returned_source (diagnose demo_env ''Fieber'' [] ''Erwachsener'' []) = Some ml_llm \<and>
   returned_source (diagnose no_provider_env ''Fieber'' [] ''Erwachsener'' []) = Some ml_model \<and>
   returned_scores (diagnose failing_env ''Fieber'' [] ''Erwachsener'' []) =
     [(''Virusgrippe'', 100)] \<and>
   returned_scores (diagnose no_provider_env ''Fieber'' [] ''Erwachsener'' []) =
     [(''Virusgrippe'', 100)] \<and>
   returned_scores (diagnose demo_env ''Fieber'' [] ''Erwachsener'' []) =
     [(''Virusgrippe'', 96.7), (''Gastritis'', 2)]"
  by code_simp

end
